theory Spec2Isabelle
  imports Main "HOL-Library.Sublist"
begin

text \<open>
  A model of the broadcast pipeline of \<^verbatim>\<open>mmmm\<close>: the platform adapters, the contact
  directory, the message builders of plain and templated mode, and the dispatch loop.
  Exceptions are values (\<open>Inl\<close> of a sum), the libraries the code calls (smtplib, slacker,
  mysql.connector) are parameters, and every function that reaches outside returns the
  list of calls it made, so that a statement can say what was sent, and when.
\<close>

section \<open>Python values and exceptions\<close>

text \<open>
  The exceptions the pipeline can meet. All of them are subclasses of Python's
  \<^verbatim>\<open>Exception\<close>; \<open>LibraryError\<close> stands for whatever the external libraries
  (smtplib, slacker, mysql.connector) raise, named by its class.
\<close>

datatype py_error =
    KeyError | TypeError | IndexError | AttributeError | ValueError
  | LibraryError string

text \<open>
  The values that \<^verbatim>\<open>json.loads\<close> and a caller's template input builder produce.
  A dict keeps its items in insertion order; its keys are strings.
\<close>

datatype pyval =
    PNone
  | PBool bool
  | PInt int
  | PStr string
  | PList "pyval list"
  | PTuple "pyval list"
  | PDict "(string \<times> pyval) list"

text \<open>\<^verbatim>\<open>data[key]\<close> with a string key: only a dict can be indexed so.\<close>

fun subscript :: "pyval \<Rightarrow> string \<Rightarrow> py_error + pyval" where
  "subscript (PDict d) k = (case map_of d k of None \<Rightarrow> Inl KeyError | Some v \<Rightarrow> Inr v)"
| "subscript _ k = Inl TypeError"

text \<open>\<^verbatim>\<open>**data\<close> in a call: the argument after \<^verbatim>\<open>**\<close> must be a mapping.\<close>

fun kwargs :: "pyval \<Rightarrow> py_error + (string \<times> pyval) list" where
  "kwargs (PDict d) = Inr d"
| "kwargs _ = Inl TypeError"

text \<open>
  \<^verbatim>\<open>*value\<close> in a call: every iterable is unpacked, a string into its characters
  and a dict into its keys; a value that is not iterable raises TypeError.
\<close>

fun unpack :: "pyval \<Rightarrow> py_error + pyval list" where
  "unpack (PStr s) = Inr (map (\<lambda>c. PStr [c]) s)"
| "unpack (PList xs) = Inr xs"
| "unpack (PTuple xs) = Inr xs"
| "unpack (PDict d) = Inr (map (\<lambda>kv. PStr (fst kv)) d)"
| "unpack _ = Inl TypeError"

text \<open>\<^verbatim>\<open>s.split(sep)\<close> for a one-character separator.\<close>

fun split :: "char \<Rightarrow> string \<Rightarrow> string list" where
  "split sep [] = [[]]"
| "split sep (c # cs) =
     (if c = sep then [] # split sep cs
      else (case split sep cs of [] \<Rightarrow> [[c]] | w # ws \<Rightarrow> (c # w) # ws))"

text \<open>\<^verbatim>\<open>xs[i]\<close> for a non-negative index.\<close>

definition index :: "'a list \<Rightarrow> nat \<Rightarrow> py_error + 'a" where
  "index xs i = (if i < length xs then Inr (xs ! i) else Inl IndexError)"

text \<open>
  Calling a class whose \<^verbatim>\<open>__init__\<close> takes exactly the named parameters, none with
  a default, with keyword arguments: any other set of keywords is a TypeError.
\<close>

definition call_with :: "string list \<Rightarrow> (string \<times> pyval) list \<Rightarrow> py_error + pyval list" where
  "call_with params kw =
     (if set (map fst kw) = set params then Inr (map (\<lambda>p. the (map_of kw p)) params)
      else Inl TypeError)"

section \<open>platform.py, platforms/email.py, platforms/slack.py: users and adapters\<close>

text \<open>An SMTP session is an object; the model keeps its identity.\<close>

type_synonym server = nat

datatype user = EmailUser pyval | SlackUser pyval

fun get_id :: "user \<Rightarrow> pyval" where
  "get_id (EmailUser address) = address"
| "get_id (SlackUser username) = username"

datatype client_user =
    EmailClientUser server pyval pyval
  | SlackClientUser pyval pyval

datatype message = Message (sender_of: client_user) (recipient_of: user) (content_of: string)

text \<open>
  What the pipeline does to the outside world, in the order it does it: every call into a
  library and every log record.
\<close>

datatype log_record =
    Sent pyval string
  | Send_Failed pyval
  | Skipped pyval
  | No_Recipients

datatype call =
    Connect pyval
  | Select_Usernames string
  | Select_Contact string pyval
  | SMTP "(string \<times> pyval) list"
  | StartTLS server
  | Login server pyval pyval
  | Sendmail server pyval pyval string
  | Post_Message pyval pyval string
  | Logging log_record

fun is_send :: "call \<Rightarrow> bool" where
  "is_send (Sendmail _ _ _ _) = True"
| "is_send (Post_Message _ _ _) = True"
| "is_send _ = False"

fun is_session :: "call \<Rightarrow> bool" where
  "is_session (SMTP _) = True"
| "is_session _ = False"

fun is_select_usernames :: "call \<Rightarrow> bool" where
  "is_select_usernames (Select_Usernames _) = True"
| "is_select_usernames _ = False"

text \<open>The recipient a dispatch log record is about: one record per attempted send.\<close>

fun attempt_of :: "call \<Rightarrow> pyval option" where
  "attempt_of (Logging (Sent rid _)) = Some rid"
| "attempt_of (Logging (Send_Failed rid)) = Some rid"
| "attempt_of _ = None"

section \<open>contact_db.py\<close>

type_synonym contact = nat

text \<open>
  The database cursor is an object of mysql.connector, which is not part of the
  repository: it is a parameter. \<open>select_username platform\<close> is what iterating over
  \<^verbatim>\<open>cursor.execute(query, (platform=platform,))\<close> yields in \<^verbatim>\<open>get_usernames\<close>, each item
  a callable; \<open>select_c_id platform username\<close> is the outcome of
  \<^verbatim>\<open>cursor.execute(query, (platform=platform, username=username))(0)\<close> in
  \<^verbatim>\<open>get_contact\<close>, the contact's id or the exception raised. How the file passes the
  platform and the username to the query plays no part below.
\<close>

record cursor =
  select_username :: "string \<Rightarrow> (nat \<Rightarrow> string) list"
  select_c_id :: "string \<Rightarrow> pyval \<Rightarrow> py_error + contact"

datatype contact_db = ContactDB cursor

fun get_usernames :: "contact_db \<Rightarrow> string \<Rightarrow> string list" where
  "get_usernames (ContactDB cursor) platform =
     [item 0. item \<leftarrow> select_username cursor platform]"

fun get_contact :: "contact_db \<Rightarrow> string \<Rightarrow> pyval \<Rightarrow> py_error + contact" where
  "get_contact (ContactDB cursor) platform username = select_c_id cursor platform username"

definition get_unrecognized :: "contact_db \<Rightarrow> string \<Rightarrow> string list \<Rightarrow> string list" where
  "get_unrecognized self platform usernames =
     [username. username \<leftarrow> usernames, username \<notin> set (get_usernames self platform)]"

section \<open>The external libraries\<close>

text \<open>
  The libraries behind the adapters are parameters of the model. \<open>raises history c\<close>
  says whether the library call \<open>c\<close> raises, given the calls made so far;
  \<open>smtp_object history\<close> is the session object a successful \<^verbatim>\<open>smtplib.SMTP(...)\<close>
  returns; \<open>connect user\<close> is the cursor of
  \<^verbatim>\<open>mysql.connector.connect(user=user, database='mmmm').cursor()\<close>; \<open>str_format\<close> is
  Python's \<^verbatim>\<open>str.format\<close> on positional arguments.
\<close>

record env =
  raises :: "call list \<Rightarrow> call \<Rightarrow> py_error option"
  smtp_object :: "call list \<Rightarrow> server"
  connect :: "pyval \<Rightarrow> cursor"
  str_format :: "string \<Rightarrow> pyval list \<Rightarrow> py_error + string"

text \<open>
  A function with effects takes the calls made before it and returns its outcome with the
  calls it made itself, a call that raised included.
\<close>

definition build_contact_db :: "env \<Rightarrow> pyval \<Rightarrow> call list \<Rightarrow> (py_error + contact_db) \<times> call list" where
  "build_contact_db env user history =
     (case raises env history (Connect user) of
        Some e \<Rightarrow> (Inl e, [Connect user])
      | None \<Rightarrow> (Inr (ContactDB (connect env user)), [Connect user]))"

subsection \<open>platforms/email.py\<close>

text \<open>\<^verbatim>\<open>EmailClientUser.__init__\<close>: the session is secured and logged in.\<close>

definition new_EmailClientUser ::
  "env \<Rightarrow> server \<Rightarrow> pyval \<Rightarrow> pyval \<Rightarrow> call list \<Rightarrow> (py_error + client_user) \<times> call list" where
  "new_EmailClientUser env server address password history =
     (case raises env history (StartTLS server) of
        Some e \<Rightarrow> (Inl e, [StartTLS server])
      | None \<Rightarrow>
          (case raises env (history @ [StartTLS server]) (Login server address password) of
             Some e \<Rightarrow> (Inl e, [StartTLS server, Login server address password])
           | None \<Rightarrow> (Inr (EmailClientUser server address password),
                       [StartTLS server, Login server address password])))"

text \<open>\<^verbatim>\<open>data['address'].split('@')[1]\<close>; only a string has \<^verbatim>\<open>split\<close>.\<close>

definition address_domain :: "pyval \<Rightarrow> py_error + string" where
  "address_domain data =
     (case subscript data ''address'' of
        Inl e \<Rightarrow> Inl e
      | Inr (PStr address) \<Rightarrow> index (split (CHR ''@'') address) 1
      | Inr _ \<Rightarrow> Inl AttributeError)"

text \<open>
  The \<^verbatim>\<open>if domain in self._servers\<close> of \<^verbatim>\<open>Email.build_sender\<close>: the session of the
  domain, from the cache or newly opened and then cached.
\<close>

definition domain_server ::
  "env \<Rightarrow> (string \<rightharpoonup> server) \<Rightarrow> string \<Rightarrow> pyval \<Rightarrow> call list
   \<Rightarrow> (py_error + server) \<times> (string \<rightharpoonup> server) \<times> call list" where
  "domain_server env servers domain data history =
     (case servers domain of
        Some server \<Rightarrow> (Inr server, servers, [])
      | None \<Rightarrow>
          (case subscript data ''smtp'' of
             Inl e \<Rightarrow> (Inl e, servers, [])
           | Inr smtp \<Rightarrow>
               (case kwargs smtp of
                  Inl e \<Rightarrow> (Inl e, servers, [])
                | Inr kw \<Rightarrow>
                    (case raises env history (SMTP kw) of
                       Some e \<Rightarrow> (Inl e, servers, [SMTP kw])
                     | None \<Rightarrow>
                         (Inr (smtp_object env history),
                          servers(domain \<mapsto> smtp_object env history),
                          [SMTP kw])))))"

text \<open>
  \<^verbatim>\<open>Email.build_sender\<close>. The adapter's \<^verbatim>\<open>_servers\<close> dict is its state: the function
  returns it updated, also when it raises after the session was cached.
\<close>

definition email_build_sender ::
  "env \<Rightarrow> (string \<rightharpoonup> server) \<Rightarrow> pyval \<Rightarrow> call list
   \<Rightarrow> (py_error + client_user) \<times> (string \<rightharpoonup> server) \<times> call list" where
  "email_build_sender env servers data history =
     (case address_domain data of
        Inl e \<Rightarrow> (Inl e, servers, [])
      | Inr domain \<Rightarrow>
          (case domain_server env servers domain data history of
             (Inl e, servers', calls) \<Rightarrow> (Inl e, servers', calls)
           | (Inr server, servers', calls) \<Rightarrow>
               (case subscript data ''address'' of
                  Inl e \<Rightarrow> (Inl e, servers', calls)
                | Inr address \<Rightarrow>
                    (case subscript data ''password'' of
                       Inl e \<Rightarrow> (Inl e, servers', calls)
                     | Inr password \<Rightarrow>
                         (case new_EmailClientUser env server address password (history @ calls) of
                            (r, calls') \<Rightarrow> (r, servers', calls @ calls'))))))"

fun email_build_recipient :: "pyval \<Rightarrow> py_error + user" where
  "email_build_recipient (PDict d) =
     (case call_with [''address''] d of
        Inr [address] \<Rightarrow> Inr (EmailUser address)
      | Inr _ \<Rightarrow> Inl TypeError
      | Inl e \<Rightarrow> Inl e)"
| "email_build_recipient data = Inr (EmailUser data)"

subsection \<open>platforms/slack.py\<close>

text \<open>
  \<^verbatim>\<open>SlackClientUser(**data)\<close>. Its \<^verbatim>\<open>Slacker(self.token)\<close> only builds the client
  object, so it is no call to the outside here; the post itself is one.
\<close>

definition slack_build_sender :: "pyval \<Rightarrow> py_error + client_user" where
  "slack_build_sender data =
     (case kwargs data of
        Inl e \<Rightarrow> Inl e
      | Inr kw \<Rightarrow>
          (case call_with [''username'', ''token''] kw of
             Inr [username, token] \<Rightarrow> Inr (SlackClientUser username token)
           | Inr _ \<Rightarrow> Inl TypeError
           | Inl e \<Rightarrow> Inl e))"

fun slack_build_recipient :: "pyval \<Rightarrow> py_error + user" where
  "slack_build_recipient (PDict d) =
     (case call_with [''username''] d of
        Inr [username] \<Rightarrow> Inr (SlackUser username)
      | Inr _ \<Rightarrow> Inl TypeError
      | Inl e \<Rightarrow> Inl e)"
| "slack_build_recipient data = Inr (SlackUser data)"

subsection \<open>platforms.py: the registry\<close>

datatype platform_class = Slack_class | Email_class

datatype platform = Slack | Email "string \<rightharpoonup> server"

definition platform_class :: "string \<rightharpoonup> platform_class" where
  "platform_class = [''slack'' \<mapsto> Slack_class, ''email'' \<mapsto> Email_class]"

text \<open>\<^verbatim>\<open>{v: k for k, v in platform_class.items()}\<close>\<close>

definition platform_name :: "platform_class \<rightharpoonup> string" where
  "platform_name = [Slack_class \<mapsto> ''slack'', Email_class \<mapsto> ''email'']"

fun new_platform :: "platform_class \<Rightarrow> platform" where
  "new_platform Slack_class = Slack"
| "new_platform Email_class = Email Map.empty"

fun type_of :: "platform \<Rightarrow> platform_class" where
  "type_of Slack = Slack_class"
| "type_of (Email _) = Email_class"

fun build_sender ::
  "env \<Rightarrow> platform \<Rightarrow> pyval \<Rightarrow> call list \<Rightarrow> (py_error + client_user) \<times> platform \<times> call list" where
  "build_sender env Slack data history = (slack_build_sender data, Slack, [])"
| "build_sender env (Email servers) data history =
     (case email_build_sender env servers data history of
        (r, servers', calls) \<Rightarrow> (r, Email servers', calls))"

fun build_recipient :: "platform \<Rightarrow> pyval \<Rightarrow> py_error + user" where
  "build_recipient Slack data = slack_build_recipient data"
| "build_recipient (Email _) data = email_build_recipient data"

text \<open>\<^verbatim>\<open>ClientUser.send_message\<close>: reading the recipient's attribute comes before the call.\<close>

fun send_message_call :: "client_user \<Rightarrow> user \<Rightarrow> string \<Rightarrow> py_error + call" where
  "send_message_call (EmailClientUser server address password) (EmailUser to) text =
     Inr (Sendmail server address to text)"
| "send_message_call (EmailClientUser server address password) (SlackUser _) text =
     Inl AttributeError"
| "send_message_call (SlackClientUser username token) (SlackUser to) text =
     Inr (Post_Message token to text)"
| "send_message_call (SlackClientUser username token) (EmailUser _) text =
     Inl AttributeError"

section \<open>basic.py\<close>

record resources =
  r_platform :: platform
  r_sender :: client_user
  r_recipients :: "user list"
  r_content :: string

text \<open>The list comprehension over \<^verbatim>\<open>recipients_data\<close>: the first exception ends it.\<close>

fun build_recipients :: "platform \<Rightarrow> pyval list \<Rightarrow> py_error + user list" where
  "build_recipients platform [] = Inr []"
| "build_recipients platform (recipient_data # rest) =
     (case build_recipient platform recipient_data of
        Inl e \<Rightarrow> Inl e
      | Inr recipient \<Rightarrow>
          (case build_recipients platform rest of
             Inl e \<Rightarrow> Inl e
           | Inr recipients \<Rightarrow> Inr (recipient # recipients)))"

definition basic_build_resources ::
  "env \<Rightarrow> string \<Rightarrow> pyval \<Rightarrow> pyval list \<Rightarrow> string \<Rightarrow> call list
   \<Rightarrow> (py_error + resources) \<times> call list" where
  "basic_build_resources env name sender_data recipients_data text history =
     (case platform_class name of
        None \<Rightarrow> (Inl KeyError, [])
      | Some cls \<Rightarrow>
          (case build_sender env (new_platform cls) sender_data history of
             (Inl e, platform, calls) \<Rightarrow> (Inl e, calls)
           | (Inr sender, platform, calls) \<Rightarrow>
               (case build_recipients platform recipients_data of
                  Inl e \<Rightarrow> (Inl e, calls)
                | Inr recipients \<Rightarrow>
                    (Inr \<lparr>r_platform = platform, r_sender = sender,
                          r_recipients = recipients, r_content = text\<rparr>, calls))))"

definition basic_build_messages :: "client_user \<Rightarrow> user list \<Rightarrow> string \<Rightarrow> message list" where
  "basic_build_messages sender recipients text =
     [Message sender recipient text. recipient \<leftarrow> recipients]"

text \<open>\<^verbatim>\<open>Message.send\<close>: the sender's \<^verbatim>\<open>send_message\<close>, a library call that may raise.\<close>

definition send :: "env \<Rightarrow> message \<Rightarrow> call list \<Rightarrow> (py_error + unit) \<times> call list" where
  "send env message history =
     (case send_message_call (sender_of message) (recipient_of message) (content_of message) of
        Inl e \<Rightarrow> (Inl e, [])
      | Inr c \<Rightarrow>
          (case raises env history c of
             Some e \<Rightarrow> (Inl e, [c])
           | None \<Rightarrow> (Inr (), [c])))"

text \<open>\<^verbatim>\<open>send_message\<close>: the \<^verbatim>\<open>except Exception\<close> turns every failure into a log record.\<close>

definition send_message :: "env \<Rightarrow> message \<Rightarrow> call list \<Rightarrow> (py_error + unit) \<times> call list" where
  "send_message env message history =
     (let recipient_id = get_id (recipient_of message) in
      case send env message history of
        (Inr _, calls) \<Rightarrow> (Inr (), calls @ [Logging (Sent recipient_id (content_of message))])
      | (Inl e, calls) \<Rightarrow> (Inr (), calls @ [Logging (Send_Failed recipient_id)]))"

text \<open>The \<^verbatim>\<open>for message in messages\<close> loop of both \<^verbatim>\<open>_send_to_all\<close> functions.\<close>

fun send_messages :: "env \<Rightarrow> message list \<Rightarrow> call list \<Rightarrow> (py_error + unit) \<times> call list" where
  "send_messages env [] history = (Inr (), [])"
| "send_messages env (message # rest) history =
     (case send_message env message history of
        (Inl e, calls) \<Rightarrow> (Inl e, calls)
      | (Inr _, calls) \<Rightarrow>
          (case send_messages env rest (history @ calls) of
             (r, calls') \<Rightarrow> (r, calls @ calls')))"

definition basic_send_to_all_internal ::
  "env \<Rightarrow> client_user \<Rightarrow> user list \<Rightarrow> string \<Rightarrow> call list \<Rightarrow> (py_error + unit) \<times> call list" where
  "basic_send_to_all_internal env sender recipients text history =
     send_messages env (basic_build_messages sender recipients text) history"

definition basic_send_to_all ::
  "env \<Rightarrow> string \<Rightarrow> pyval \<Rightarrow> pyval list \<Rightarrow> string \<Rightarrow> call list
   \<Rightarrow> (py_error + unit) \<times> call list" where
  "basic_send_to_all env name sender_data recipients_data text history =
     (case basic_build_resources env name sender_data recipients_data text history of
        (Inl e, calls) \<Rightarrow> (Inl e, calls)
      | (Inr resources, calls) \<Rightarrow>
          (case basic_send_to_all_internal env (r_sender resources) (r_recipients resources)
                  (r_content resources) (history @ calls) of
             (r, calls') \<Rightarrow> (r, calls @ calls')))"

section \<open>templated.py\<close>

record t_resources = resources +
  r_templating_data :: pyval
  r_contact_db :: contact_db

text \<open>
  The template input builder is the caller's function of the contact and the templating
  data; like any call it may raise.
\<close>

type_synonym template_input_builder = "contact \<Rightarrow> pyval \<Rightarrow> py_error + pyval"

definition templated_build_resources ::
  "env \<Rightarrow> string \<Rightarrow> pyval \<Rightarrow> pyval list \<Rightarrow> string \<Rightarrow> pyval \<Rightarrow> pyval \<Rightarrow> call list
   \<Rightarrow> (py_error + t_resources) \<times> call list" where
  "templated_build_resources env name sender_data recipients_data text templating_data
       db_username history =
     (case build_contact_db env db_username history of
        (Inl e, calls) \<Rightarrow> (Inl e, calls)
      | (Inr contact_db, calls) \<Rightarrow>
          (let (recipients_data', calls') =
                 (if recipients_data = []
                  then (map PStr (get_usernames contact_db name),
                        calls @ [Logging No_Recipients, Select_Usernames name])
                  else (recipients_data, calls))
           in case basic_build_resources env name sender_data recipients_data' text
                     (history @ calls') of
                (Inl e, calls'') \<Rightarrow> (Inl e, calls' @ calls'')
              | (Inr basic, calls'') \<Rightarrow>
                  (Inr \<lparr>r_platform = r_platform basic, r_sender = r_sender basic,
                        r_recipients = r_recipients basic, r_content = r_content basic,
                        r_templating_data = templating_data, r_contact_db = contact_db\<rparr>,
                   calls' @ calls'')))"

text \<open>
  One pass of the loop of \<^verbatim>\<open>build_messages\<close>: \<open>Inr None\<close> is a \<^verbatim>\<open>continue\<close>,
  \<open>Inr (Some m)\<close> the message appended, \<open>Inl e\<close> an exception that leaves the loop.
\<close>

definition fill_message ::
  "env \<Rightarrow> string \<Rightarrow> pyval \<Rightarrow> contact_db \<Rightarrow> template_input_builder \<Rightarrow> message
   \<Rightarrow> (py_error + message option) \<times> call list" where
  "fill_message env name templating_data contact_db builder message =
     (let recipient_id = get_id (recipient_of message) in
      case get_contact contact_db name recipient_id of
        Inl e \<Rightarrow>
          (if e = KeyError
           then (Inr None, [Select_Contact name recipient_id, Logging (Skipped recipient_id)])
           else (Inl e, [Select_Contact name recipient_id]))
      | Inr user \<Rightarrow>
          (case builder user templating_data of
             Inl e \<Rightarrow> (Inl e, [Select_Contact name recipient_id])
           | Inr template_input \<Rightarrow>
               (if template_input = PNone then (Inr None, [Select_Contact name recipient_id])
                else
                  (case (case unpack template_input of
                           Inl e \<Rightarrow> Inl e
                         | Inr args \<Rightarrow> str_format env (content_of message) args) of
                     Inl e \<Rightarrow>
                       (if e = TypeError then (Inl TypeError, [Select_Contact name recipient_id])
                        else (Inl e, [Select_Contact name recipient_id]))
                   | Inr text \<Rightarrow>
                       (Inr (Some (Message (sender_of message) (recipient_of message) text)),
                        [Select_Contact name recipient_id])))))"

fun fill_messages ::
  "env \<Rightarrow> string \<Rightarrow> pyval \<Rightarrow> contact_db \<Rightarrow> template_input_builder \<Rightarrow> message list
   \<Rightarrow> message list \<Rightarrow> (py_error + message list) \<times> call list" where
  "fill_messages env name templating_data contact_db builder [] messages = (Inr messages, [])"
| "fill_messages env name templating_data contact_db builder (message # rest) messages =
     (case fill_message env name templating_data contact_db builder message of
        (Inl e, calls) \<Rightarrow> (Inl e, calls)
      | (Inr filled, calls) \<Rightarrow>
          (case fill_messages env name templating_data contact_db builder rest
                  (case filled of None \<Rightarrow> messages | Some m \<Rightarrow> messages @ [m]) of
             (r, calls') \<Rightarrow> (r, calls @ calls')))"

definition templated_build_messages ::
  "env \<Rightarrow> platform \<Rightarrow> client_user \<Rightarrow> user list \<Rightarrow> string \<Rightarrow> pyval \<Rightarrow> contact_db
   \<Rightarrow> template_input_builder \<Rightarrow> (py_error + message list) \<times> call list" where
  "templated_build_messages env platform sender recipients text templating_data contact_db
       builder =
     (case platform_name (type_of platform) of
        None \<Rightarrow> (Inl KeyError, [])
      | Some name \<Rightarrow>
          fill_messages env name templating_data contact_db builder
            (basic_build_messages sender recipients text) [])"

definition templated_send_to_all_internal ::
  "env \<Rightarrow> platform \<Rightarrow> client_user \<Rightarrow> user list \<Rightarrow> string \<Rightarrow> pyval \<Rightarrow> contact_db
   \<Rightarrow> template_input_builder \<Rightarrow> call list \<Rightarrow> (py_error + unit) \<times> call list" where
  "templated_send_to_all_internal env platform sender recipients text templating_data
       contact_db builder history =
     (case templated_build_messages env platform sender recipients text templating_data
             contact_db builder of
        (Inl e, calls) \<Rightarrow> (Inl e, calls)
      | (Inr messages, calls) \<Rightarrow>
          (case send_messages env messages (history @ calls) of
             (r, calls') \<Rightarrow> (r, calls @ calls')))"

definition templated_send_to_all ::
  "env \<Rightarrow> string \<Rightarrow> pyval \<Rightarrow> pyval list \<Rightarrow> string \<Rightarrow> pyval \<Rightarrow> pyval
   \<Rightarrow> template_input_builder \<Rightarrow> call list \<Rightarrow> (py_error + unit) \<times> call list" where
  "templated_send_to_all env name sender_data recipients_data text templating_data
       db_username builder history =
     (case templated_build_resources env name sender_data recipients_data text
             templating_data db_username history of
        (Inl e, calls) \<Rightarrow> (Inl e, calls)
      | (Inr res, calls) \<Rightarrow>
          (case templated_send_to_all_internal env (r_platform res) (r_sender res)
                  (r_recipients res) (r_content res) (r_templating_data res)
                  (r_contact_db res) builder (history @ calls) of
             (r, calls') \<Rightarrow> (r, calls @ calls')))"

section \<open>A model of \<^verbatim>\<open>str.format\<close> and a sample world\<close>

text \<open>
  The theorems below hold for every \<open>env\<close>. The concrete runs need one, and with it
  \<^verbatim>\<open>str.format\<close>: \<open>py_format\<close> models it on templates made of literal text, the
  doubled braces \<^verbatim>\<open>{{\<close> and \<^verbatim>\<open>}}\<close>, and fields \<^verbatim>\<open>{N}\<close> with a decimal index, filled
  with string arguments. \<open>None\<close> means the template or an argument used is outside this
  fragment. The first argument is the index read so far inside a field.
\<close>

definition is_digit :: "char \<Rightarrow> bool" where
  "is_digit c = (c \<in> set ''0123456789'')"

definition decimal :: "string \<Rightarrow> nat" where
  "decimal ds = foldl (\<lambda>n c. 10 * n + (of_char c - 48)) 0 ds"

definition emit :: "string \<Rightarrow> (py_error + string) option \<Rightarrow> (py_error + string) option" where
  "emit s rest = (case rest of Some (Inr t) \<Rightarrow> Some (Inr (s @ t)) | other \<Rightarrow> other)"

fun py_format_from :: "string option \<Rightarrow> string \<Rightarrow> pyval list \<Rightarrow> (py_error + string) option" where
  "py_format_from None [] args = Some (Inr [])"
| "py_format_from None (c # cs) args =
     (if c = CHR ''{'' then
        (case cs of
           [] \<Rightarrow> Some (Inl ValueError)
         | d # rest \<Rightarrow>
             if d = CHR ''{'' then emit ''{'' (py_format_from None rest args)
             else py_format_from (Some []) cs args)
      else if c = CHR ''}'' then
        (case cs of
           [] \<Rightarrow> Some (Inl ValueError)
         | d # rest \<Rightarrow>
             if d = CHR ''}'' then emit ''}'' (py_format_from None rest args)
             else Some (Inl ValueError))
      else emit [c] (py_format_from None cs args))"
| "py_format_from (Some ds) [] args = Some (Inl ValueError)"
| "py_format_from (Some ds) (c # cs) args =
     (if c = CHR ''}'' then
        (if ds = [] \<or> (hd ds = CHR ''0'' \<and> length ds > 1) then None
         else if decimal ds < length args then
           (case args ! decimal ds of
              PStr s \<Rightarrow> emit s (py_format_from None cs args)
            | _ \<Rightarrow> None)
         else Some (Inl IndexError))
      else if is_digit c then py_format_from (Some (ds @ [c])) cs args
      else None)"

definition py_format :: "string \<Rightarrow> pyval list \<Rightarrow> py_error + string" where
  "py_format template args =
     (case py_format_from None template args of
        Some r \<Rightarrow> r
      | None \<Rightarrow> Inl (LibraryError ''outside the modelled fragment of str.format''))"

text \<open>
  A directory with two e-mail contacts; a lookup of anyone else raises KeyError, the
  exception \<^verbatim>\<open>build_messages\<close> catches.
\<close>

definition sample_cursor :: cursor where
  "sample_cursor =
     \<lparr>select_username = (\<lambda>platform.
          if platform = ''email'' then [\<lambda>_. ''a@x.com'', \<lambda>_. ''b@x.com''] else []),
      select_c_id = (\<lambda>platform username.
          if platform = ''email'' \<and> username = PStr ''a@x.com'' then Inr 1
          else if platform = ''email'' \<and> username = PStr ''b@x.com'' then Inr 2
          else Inl KeyError)\<rparr>"

text \<open>A world where no library call fails, and one whose mail server refuses one address.\<close>

definition sample_env :: env where
  "sample_env =
     \<lparr>raises = (\<lambda>history c. None),
      smtp_object = (\<lambda>history. length history),
      connect = (\<lambda>user. sample_cursor),
      str_format = py_format\<rparr>"

definition refusing :: "pyval \<Rightarrow> env" where
  "refusing address =
     sample_env\<lparr>raises := (\<lambda>history c.
        case c of
          Sendmail server from to text \<Rightarrow>
            if to = address then Some (LibraryError ''SMTPRecipientsRefused'') else None
        | _ \<Rightarrow> None)\<rparr>"

definition sample_sender_data :: pyval where
  "sample_sender_data =
     PDict [(''address'', PStr ''me@x.com''), (''password'', PStr ''secret''),
            (''smtp'', PDict [(''host'', PStr ''smtp.x.com'')])]"

text \<open>Template input builders: the contact's name in a tuple, as a bare string, as a number.\<close>

definition names_builder :: template_input_builder where
  "names_builder user data =
     (if user = 1 then Inr (PTuple [PStr ''Alice''])
      else if user = 2 then Inr (PTuple [PStr ''Bob''])
      else Inr PNone)"

definition partial_builder :: template_input_builder where
  "partial_builder user data = (if user = 1 then Inr (PTuple [PStr ''Alice'']) else Inr PNone)"

definition bare_string_builder :: template_input_builder where
  "bare_string_builder user data = Inr (PStr ''Alice'')"

definition dict_builder :: template_input_builder where
  "dict_builder user data = Inr (PDict [(''Alice'', PInt 1)])"

definition number_for_bob_builder :: template_input_builder where
  "number_for_bob_builder user data =
     (if user = 1 then Inr (PTuple [PStr ''Alice'']) else Inr (PInt 7))"

definition me :: client_user where
  "me = EmailClientUser 0 (PStr ''me@x.com'') (PStr ''secret'')"

definition mail_to :: "string \<Rightarrow> message" where
  "mail_to address =
     Message me (EmailUser (PStr address)) ''Hello''"

section \<open>Vocabulary of the statements\<close>

text \<open>
  How the templated loop classifies a recipient: the directory lookup raises, or it
  succeeds and the template input builder returns \<^verbatim>\<open>None\<close>.
\<close>

definition lookup_fails :: "contact_db \<Rightarrow> string \<Rightarrow> user \<Rightarrow> bool" where
  "lookup_fails contact_db name r = isl (get_contact contact_db name (get_id r))"

definition builder_absent ::
  "contact_db \<Rightarrow> string \<Rightarrow> template_input_builder \<Rightarrow> pyval \<Rightarrow> user \<Rightarrow> bool" where
  "builder_absent contact_db name builder templating_data r =
     (case get_contact contact_db name (get_id r) of
        Inl e \<Rightarrow> False
      | Inr user \<Rightarrow> builder user templating_data = Inr PNone)"

text \<open>The library calls a list of messages asks for, in order.\<close>

definition send_calls_of :: "message list \<Rightarrow> call list" where
  "send_calls_of messages =
     concat [case send_message_call (sender_of m) (recipient_of m) (content_of m) of
               Inl e \<Rightarrow> [] | Inr c \<Rightarrow> [c]. m \<leftarrow> messages]"

text \<open>The SMTP session an e-mail sender holds; a Slack sender holds none.\<close>

fun session_of :: "client_user \<Rightarrow> server option" where
  "session_of (EmailClientUser server address password) = Some server"
| "session_of (SlackClientUser username token) = None"

text \<open>A second sender of the same mail domain, described without any \<^verbatim>\<open>smtp\<close> entry.\<close>

definition colleague_sender_data :: pyval where
  "colleague_sender_data =
     PDict [(''address'', PStr ''you@x.com''), (''password'', PStr ''hunter2'')]"

text \<open>
  A sender and a recipient of the same platform: the recipient has the attribute that the
  sender's \<^verbatim>\<open>send_message\<close> reads.
\<close>

fun same_platform :: "client_user \<Rightarrow> user \<Rightarrow> bool" where
  "same_platform (EmailClientUser server address password) (EmailUser to) = True"
| "same_platform (SlackClientUser username token) (SlackUser to) = True"
| "same_platform _ _ = False"

text \<open>The data of a sender with the given address, all on one and the same SMTP endpoint.\<close>

definition sender_at :: "string \<Rightarrow> pyval" where
  "sender_at address =
     PDict [(''address'', PStr address), (''password'', PStr ''secret''),
            (''smtp'', PDict [(''host'', PStr ''smtp.x.com'')])]"

section \<open>The contact directory\<close>

text \<open>
  C2. For every platform and every collection of usernames, \<open>get_unrecognized\<close> returns
  exactly the usernames of the input that are not among \<open>get_usernames platform\<close>: as a
  set it is \<open>{u \<in> usernames. u \<notin> get_usernames platform}\<close>, and as a list it keeps the
  order and the repetitions of the input.
\<close>

theorem get_unrecognized_exact:
  "set (get_unrecognized db platform usernames) =
     {u \<in> set usernames. u \<notin> set (get_usernames db platform)}
   \<and> get_unrecognized db platform usernames =
     filter (\<lambda>u. u \<notin> set (get_usernames db platform)) usernames"
proof
  show "set (get_unrecognized db platform usernames) =
     {u \<in> set usernames. u \<notin> set (get_usernames db platform)}"
    by (auto simp: get_unrecognized_def)
  show "get_unrecognized db platform usernames =
     filter (\<lambda>u. u \<notin> set (get_usernames db platform)) usernames"
    unfolding get_unrecognized_def by (induction usernames) simp_all
qed

section \<open>Plain mode\<close>

text \<open>
  C6. In plain mode \<open>build_messages\<close> produces exactly one message per recipient, in the
  order of the recipients, and every message has the given sender and the given content
  unchanged.
\<close>

theorem basic_build_messages_one_per_recipient:
  "length (basic_build_messages sender recipients text) = length recipients
   \<and> map recipient_of (basic_build_messages sender recipients text) = recipients
   \<and> map sender_of (basic_build_messages sender recipients text) =
       replicate (length recipients) sender
   \<and> map content_of (basic_build_messages sender recipients text) =
       replicate (length recipients) text"
  unfolding basic_build_messages_def by (induction recipients) simp_all

section \<open>The dispatch loop\<close>

lemma send_message_returns: "fst (send_message env m h) = Inr ()"
  by (simp add: send_message_def Let_def split: prod.splits sum.splits)

lemma send_calls: "\<forall>c \<in> set (snd (send env m h)). is_send c"
  by (cases "sender_of m"; cases "recipient_of m")
     (auto simp: send_def split: sum.splits option.splits)

lemma send_no_attempt: "List.map_filter attempt_of (snd (send env m h)) = []"
  by (cases "sender_of m"; cases "recipient_of m")
     (auto simp: send_def List.map_filter_simps split: sum.splits option.splits)

lemma map_filter_append:
  "List.map_filter f (xs @ ys) = List.map_filter f xs @ List.map_filter f ys"
  by (simp add: List.map_filter_def)

lemma send_message_attempt:
  "List.map_filter attempt_of (snd (send_message env m h)) = [get_id (recipient_of m)]"
  using send_no_attempt [of env m h]
  by (auto simp: send_message_def Let_def map_filter_append List.map_filter_simps
           split: prod.splits sum.splits)

lemma send_message_failed:
  assumes "fst (send env m h) \<noteq> Inr ()"
  shows "snd (send_message env m h) =
           snd (send env m h) @ [Logging (Send_Failed (get_id (recipient_of m)))]"
  using assms by (auto simp: send_message_def Let_def split: prod.splits sum.splits)

lemma send_messages_returns: "fst (send_messages env ms h) = Inr ()"
proof (induction ms arbitrary: h)
  case Nil
  show ?case by simp
next
  case (Cons m ms)
  have "fst (send_message env m h) = Inr ()" by (rule send_message_returns)
  then obtain calls where m: "send_message env m h = (Inr (), calls)"
    by (cases "send_message env m h") auto
  show ?case using Cons [of "h @ calls"] m by (auto split: prod.splits)
qed

lemma send_messages_Cons:
  "send_messages env (m # ms) h =
     (Inr (), snd (send_message env m h) @
              snd (send_messages env ms (h @ snd (send_message env m h))))"
proof -
  obtain calls where m: "send_message env m h = (Inr (), calls)"
    using send_message_returns [of env m h] by (cases "send_message env m h") auto
  obtain calls' where ms: "send_messages env ms (h @ calls) = (Inr (), calls')"
    using send_messages_returns [of env ms "h @ calls"]
    by (cases "send_messages env ms (h @ calls)") auto
  show ?thesis by (simp add: m ms)
qed

lemma send_messages_attempts:
  "List.map_filter attempt_of (snd (send_messages env ms h)) =
     map (\<lambda>m. get_id (recipient_of m)) ms"
proof (induction ms arbitrary: h)
  case Nil
  show ?case by (simp add: List.map_filter_simps)
next
  case (Cons m ms)
  show ?case
    by (simp only: send_messages_Cons snd_conv map_filter_append send_message_attempt Cons
          list.map append_Cons append_Nil)
qed

text \<open>
  C5. In the dispatch loop a failure raised by one message's send is caught and logged, and
  every later message of the batch is still attempted; no send failure reaches the caller.
  The loop always returns normally; it leaves one dispatch log record per message, in
  order; whatever the first message's send does, the loop goes on with the rest; and a
  send that raises leaves a failure record for its recipient.
\<close>

theorem send_failures_are_contained:
  "fst (send_messages env messages history) = Inr ()
   \<and> fst (basic_send_to_all_internal env sender recipients text history) = Inr ()
   \<and> List.map_filter attempt_of (snd (send_messages env messages history)) =
       map (\<lambda>m. get_id (recipient_of m)) messages
   \<and> send_messages env (message # rest) history =
       (Inr (), snd (send_message env message history) @
                snd (send_messages env rest (history @ snd (send_message env message history))))
   \<and> (fst (send env message history) \<noteq> Inr () \<longrightarrow>
        snd (send_message env message history) =
          snd (send env message history) @
          [Logging (Send_Failed (get_id (recipient_of message)))])"
proof (intro conjI impI)
  show "fst (send_messages env messages history) = Inr ()"
    by (rule send_messages_returns)
  show "fst (basic_send_to_all_internal env sender recipients text history) = Inr ()"
    unfolding basic_send_to_all_internal_def by (rule send_messages_returns)
  show "List.map_filter attempt_of (snd (send_messages env messages history)) =
       map (\<lambda>m. get_id (recipient_of m)) messages"
    by (rule send_messages_attempts)
  show "send_messages env (message # rest) history =
       (Inr (), snd (send_message env message history) @
                snd (send_messages env rest (history @ snd (send_message env message history))))"
    by (rule send_messages_Cons)
next
  assume "fst (send env message history) \<noteq> Inr ()"
  then show "snd (send_message env message history) =
          snd (send env message history) @
          [Logging (Send_Failed (get_id (recipient_of message)))]"
    by (rule send_message_failed)
qed

text \<open>
  The mail server refuses the first of two recipients: the failure is logged and the
  second message is sent.
\<close>

theorem send_failures_are_contained_witness:
  "fst (send (refusing (PStr ''a@x.com'')) (mail_to ''a@x.com'') []) \<noteq> Inr ()
   \<and> snd (send_message (refusing (PStr ''a@x.com'')) (mail_to ''a@x.com'') []) =
       [Sendmail 0 (PStr ''me@x.com'') (PStr ''a@x.com'') ''Hello'',
        Logging (Send_Failed (PStr ''a@x.com''))]
   \<and> send_messages (refusing (PStr ''a@x.com'')) [mail_to ''a@x.com'', mail_to ''b@x.com''] [] =
       (Inr (),
        [Sendmail 0 (PStr ''me@x.com'') (PStr ''a@x.com'') ''Hello'',
         Logging (Send_Failed (PStr ''a@x.com'')),
         Sendmail 0 (PStr ''me@x.com'') (PStr ''b@x.com'') ''Hello'',
         Logging (Sent (PStr ''b@x.com'') ''Hello'')])"
  using send_failures_are_contained
    [of "refusing (PStr ''a@x.com'')" "[mail_to ''a@x.com'', mail_to ''b@x.com'']" "[]"
        _ _ _ "mail_to ''a@x.com''" "[mail_to ''b@x.com'']"]
  by (simp add: refusing_def sample_env_def mail_to_def me_def send_def send_message_def)

section \<open>Templated mode: building the messages\<close>

lemma fill_message_skip:
  assumes "fill_message env name data db builder m = (Inr None, calls)"
  shows "get_contact db name (get_id (recipient_of m)) = Inl KeyError
         \<or> builder_absent db name builder data (recipient_of m)"
  using assms
  by (auto simp: fill_message_def builder_absent_def Let_def split: sum.splits if_splits)

lemma fill_message_some:
  assumes "fill_message env name data db builder m = (Inr (Some m'), calls)"
  shows "\<not> lookup_fails db name (recipient_of m)
         \<and> \<not> builder_absent db name builder data (recipient_of m)
         \<and> sender_of m' = sender_of m \<and> recipient_of m' = recipient_of m"
  using assms
  by (auto simp: fill_message_def builder_absent_def lookup_fails_def Let_def
           split: sum.splits if_splits)

lemma skip_disjoint:
  "get_contact db name (get_id r) = Inl KeyError \<Longrightarrow> lookup_fails db name r \<and> \<not> builder_absent db name builder data r"
  "builder_absent db name builder data r \<Longrightarrow> \<not> lookup_fails db name r"
  by (auto simp: builder_absent_def lookup_fails_def split: sum.splits)

lemma fill_messages_built:
  assumes "fill_messages env name data db builder ms acc = (Inr out, calls)"
  shows "\<exists>new. out = acc @ new
           \<and> map recipient_of new =
               filter (\<lambda>r. \<not> lookup_fails db name r \<and> \<not> builder_absent db name builder data r)
                 (map recipient_of ms)
           \<and> sender_of ` set new \<subseteq> sender_of ` set ms
           \<and> length new + length (filter (lookup_fails db name) (map recipient_of ms))
               + length (filter (builder_absent db name builder data) (map recipient_of ms))
             = length ms"
  using assms
proof (induction ms arbitrary: acc out calls)
  case Nil
  then show ?case by simp
next
  case (Cons m ms)
  from Cons.prems obtain filled c1 c2 where
    m: "fill_message env name data db builder m = (Inr filled, c1)" and
    rest: "fill_messages env name data db builder ms
             (case filled of None \<Rightarrow> acc | Some m' \<Rightarrow> acc @ [m']) = (Inr out, c2)"
    by (auto split: prod.splits sum.splits)
  from Cons.IH [OF rest] obtain new where
    new: "out = (case filled of None \<Rightarrow> acc | Some m' \<Rightarrow> acc @ [m']) @ new"
      "map recipient_of new =
         filter (\<lambda>r. \<not> lookup_fails db name r \<and> \<not> builder_absent db name builder data r)
           (map recipient_of ms)"
      "sender_of ` set new \<subseteq> sender_of ` set ms"
      "length new + length (filter (lookup_fails db name) (map recipient_of ms))
         + length (filter (builder_absent db name builder data) (map recipient_of ms))
       = length ms"
    by blast
  show ?case
  proof (cases filled)
    case None
    with m have "get_contact db name (get_id (recipient_of m)) = Inl KeyError
         \<or> builder_absent db name builder data (recipient_of m)"
      by (simp add: fill_message_skip)
    then show ?thesis using new None skip_disjoint [where db=db and name=name and r="recipient_of m" and builder=builder and data=data]
      by (intro exI [of _ new]) auto
  next
    case (Some m')
    with m have "\<not> lookup_fails db name (recipient_of m)
         \<and> \<not> builder_absent db name builder data (recipient_of m)
         \<and> sender_of m' = sender_of m \<and> recipient_of m' = recipient_of m"
      by (simp add: fill_message_some)
    then show ?thesis using new Some
      by (intro exI [of _ "m' # new"]) auto
  qed
qed

lemma fill_messages_append:
  "fill_messages env name data db builder (xs @ ys) acc =
     (case fill_messages env name data db builder xs acc of
        (Inl e, c) \<Rightarrow> (Inl e, c)
      | (Inr acc', c) \<Rightarrow>
          (case fill_messages env name data db builder ys acc' of (r, c') \<Rightarrow> (r, c @ c')))"
  by (induction xs arbitrary: acc) (auto split: prod.splits sum.splits)

lemma fill_messages_acc:
  "fill_messages env name data db builder ms acc =
     (case fill_messages env name data db builder ms [] of
        (Inl e, c) \<Rightarrow> (Inl e, c)
      | (Inr new, c) \<Rightarrow> (Inr (acc @ new), c))"
proof (induction ms arbitrary: acc)
  case Nil
  show ?case by simp
next
  case (Cons m ms)
  show ?case
  proof (cases "fill_message env name data db builder m")
    case (Pair r c)
    show ?thesis
    proof (cases r)
      case (Inl e)
      with Pair show ?thesis by simp
    next
      case (Inr filled)
      show ?thesis
      proof (cases filled)
        case None
        with Pair Inr show ?thesis
          using Cons [of acc] by (simp split: prod.splits sum.splits)
      next
        case (Some m')
        with Pair Inr show ?thesis
          using Cons [of "acc @ [m']"] Cons [of "[m']"]
          by (simp split: prod.splits sum.splits)
      qed
    qed
  qed
qed

lemma fill_message_KeyError:
  assumes "get_contact db name (get_id (recipient_of m)) = Inl KeyError"
  shows "fill_message env name data db builder m =
           (Inr None, [Select_Contact name (get_id (recipient_of m)),
                       Logging (Skipped (get_id (recipient_of m)))])"
  using assms by (simp add: fill_message_def Let_def)

lemma fill_messages_skip:
  assumes "get_contact db name (get_id r) = Inl KeyError"
  shows "fill_messages env name data db builder (xs @ Message s r t # ys) [] =
     (case fill_messages env name data db builder xs [] of
        (Inl e, c) \<Rightarrow> (Inl e, c)
      | (Inr new, c) \<Rightarrow>
          (case fill_messages env name data db builder ys [] of
             (Inl e, c') \<Rightarrow>
               (Inl e, c @ [Select_Contact name (get_id r), Logging (Skipped (get_id r))] @ c')
           | (Inr new', c') \<Rightarrow>
               (Inr (new @ new'),
                c @ [Select_Contact name (get_id r), Logging (Skipped (get_id r))] @ c')))"
proof (cases "fill_messages env name data db builder xs []")
  case (Pair res c)
  have m: "fill_message env name data db builder (Message s r t) =
             (Inr None, [Select_Contact name (get_id r), Logging (Skipped (get_id r))])"
    using fill_message_KeyError [of db name "Message s r t" env data builder] assms by simp
  show ?thesis
  proof (cases res)
    case (Inl e)
    with Pair show ?thesis by (simp add: fill_messages_append)
  next
    case (Inr new)
    show ?thesis
      using Pair Inr m fill_messages_acc [of env name data db builder ys new]
      by (simp add: fill_messages_append split: prod.splits sum.splits)
  qed
qed

lemma basic_build_messages_append:
  "basic_build_messages s (xs @ ys) t = basic_build_messages s xs t @ basic_build_messages s ys t"
  by (simp add: basic_build_messages_def)

lemma basic_build_messages_Cons:
  "basic_build_messages s (r # ys) t = Message s r t # basic_build_messages s ys t"
  by (simp add: basic_build_messages_def)

text \<open>
  C3. In templated mode a recipient whose directory lookup fails with the directory's
  not-found error (the KeyError that \<^verbatim>\<open>build_messages\<close> catches) is skipped: building the
  messages for a list that contains such a recipient gives the messages of the recipients
  before it followed by those of the recipients after it, the skipped recipient adds only
  its lookup and a log record of the skip, and an error can only come from another
  recipient.
\<close>

theorem contact_not_found_is_skipped:
  assumes "platform_name (type_of platform) = Some name"
      and "get_contact contact_db name (get_id r) = Inl KeyError"
  shows "templated_build_messages env platform sender (before @ r # after) text
            templating_data contact_db builder =
     (case templated_build_messages env platform sender before text templating_data
             contact_db builder of
        (Inl e, calls) \<Rightarrow> (Inl e, calls)
      | (Inr messages, calls) \<Rightarrow>
          (case templated_build_messages env platform sender after text templating_data
                  contact_db builder of
             (Inl e, calls') \<Rightarrow>
               (Inl e, calls @ [Select_Contact name (get_id r), Logging (Skipped (get_id r))]
                         @ calls')
           | (Inr messages', calls') \<Rightarrow>
               (Inr (messages @ messages'),
                calls @ [Select_Contact name (get_id r), Logging (Skipped (get_id r))]
                  @ calls')))"
  unfolding templated_build_messages_def assms(1) option.case basic_build_messages_append
    basic_build_messages_Cons
  by (rule fill_messages_skip [OF assms(2)])

text \<open>The directory knows \<^verbatim>\<open>a@x.com\<close> and \<^verbatim>\<open>b@x.com\<close> but not \<^verbatim>\<open>zz\<close>.\<close>

theorem contact_not_found_is_skipped_witness:
  "platform_name (type_of (Email Map.empty)) = Some ''email''
   \<and> get_contact (ContactDB sample_cursor) ''email'' (get_id (EmailUser (PStr ''zz''))) = Inl KeyError
   \<and> templated_build_messages sample_env (Email Map.empty)
         (EmailClientUser 0 (PStr ''me@x.com'') (PStr ''secret''))
         ([EmailUser (PStr ''a@x.com'')] @ EmailUser (PStr ''zz'') # [EmailUser (PStr ''b@x.com'')])
         ''Hi {0}'' PNone (ContactDB sample_cursor) names_builder =
       (Inr [Message (EmailClientUser 0 (PStr ''me@x.com'') (PStr ''secret''))
               (EmailUser (PStr ''a@x.com'')) ''Hi Alice'',
             Message (EmailClientUser 0 (PStr ''me@x.com'') (PStr ''secret''))
               (EmailUser (PStr ''b@x.com'')) ''Hi Bob''],
        [Select_Contact ''email'' (PStr ''a@x.com''),
         Select_Contact ''email'' (PStr ''zz''), Logging (Skipped (PStr ''zz'')),
         Select_Contact ''email'' (PStr ''b@x.com'')])"
proof -
  have name: "platform_name (type_of (Email Map.empty)) = Some ''email''"
    by (simp add: platform_name_def)
  have fails: "get_contact (ContactDB sample_cursor) ''email'' (get_id (EmailUser (PStr ''zz'')))
                 = Inl KeyError"
    by (simp add: sample_cursor_def)
  have before: "templated_build_messages sample_env (Email Map.empty)
         (EmailClientUser 0 (PStr ''me@x.com'') (PStr ''secret''))
         [EmailUser (PStr ''a@x.com'')] ''Hi {0}'' PNone (ContactDB sample_cursor) names_builder =
       (Inr [Message (EmailClientUser 0 (PStr ''me@x.com'') (PStr ''secret''))
               (EmailUser (PStr ''a@x.com'')) ''Hi Alice''],
        [Select_Contact ''email'' (PStr ''a@x.com'')])"
    by (simp add: templated_build_messages_def basic_build_messages_def fill_message_def
          sample_env_def sample_cursor_def names_builder_def py_format_def emit_def
          decimal_def is_digit_def platform_name_def Let_def)
  have after: "templated_build_messages sample_env (Email Map.empty)
         (EmailClientUser 0 (PStr ''me@x.com'') (PStr ''secret''))
         [EmailUser (PStr ''b@x.com'')] ''Hi {0}'' PNone (ContactDB sample_cursor) names_builder =
       (Inr [Message (EmailClientUser 0 (PStr ''me@x.com'') (PStr ''secret''))
               (EmailUser (PStr ''b@x.com'')) ''Hi Bob''],
        [Select_Contact ''email'' (PStr ''b@x.com'')])"
    by (simp add: templated_build_messages_def basic_build_messages_def fill_message_def
          sample_env_def sample_cursor_def names_builder_def py_format_def emit_def
          decimal_def is_digit_def platform_name_def Let_def)
  show ?thesis
    using name fails
      contact_not_found_is_skipped [OF name fails, of sample_env
        "EmailClientUser 0 (PStr ''me@x.com'') (PStr ''secret'')"
        "[EmailUser (PStr ''a@x.com'')]" "[EmailUser (PStr ''b@x.com'')]"
        "''Hi {0}''" PNone names_builder, unfolded before after]
    by simp
qed

lemma send_message_call_is_send:
  "send_message_call s r t = Inr c \<Longrightarrow> is_send c"
  by (cases s; cases r) auto

lemma send_message_sends:
  "filter is_send (snd (send_message env m h)) = send_calls_of [m]"
  by (auto simp: send_message_def send_def send_calls_of_def Let_def
           dest: send_message_call_is_send split: sum.splits option.splits)

lemma send_calls_of_Cons: "send_calls_of (m # ms) = send_calls_of [m] @ send_calls_of ms"
  by (simp add: send_calls_of_def)

lemma send_messages_sends:
  "filter is_send (snd (send_messages env ms h)) = send_calls_of ms"
proof (induction ms arbitrary: h)
  case Nil
  show ?case by (simp add: send_calls_of_def)
next
  case (Cons m ms)
  show ?case
    by (simp only: send_messages_Cons snd_conv filter_append send_message_sends Cons
          send_calls_of_Cons [of m ms])
qed

lemma fill_message_calls:
  "filter is_send (snd (fill_message env name data db builder m)) = []
   \<and> List.map_filter attempt_of (snd (fill_message env name data db builder m)) = []
   \<and> filter is_session (snd (fill_message env name data db builder m)) = []
   \<and> filter is_select_usernames (snd (fill_message env name data db builder m)) = []"
  by (simp add: fill_message_def Let_def split: sum.splits)

lemma fill_messages_calls:
  "filter is_send (snd (fill_messages env name data db builder ms acc)) = []
   \<and> List.map_filter attempt_of (snd (fill_messages env name data db builder ms acc)) = []
   \<and> filter is_session (snd (fill_messages env name data db builder ms acc)) = []
   \<and> filter is_select_usernames (snd (fill_messages env name data db builder ms acc)) = []"
proof (induction ms arbitrary: acc)
  case Nil
  show ?case by simp
next
  case (Cons m ms)
  show ?case
  proof (cases "fill_message env name data db builder m")
    case (Pair res c)
    note m = fill_message_calls [of env name data db builder m, unfolded Pair snd_conv]
    show ?thesis
    proof (cases res)
      case (Inl e)
      with Pair m show ?thesis by simp
    next
      case (Inr filled)
      obtain res' c' where rest: "fill_messages env name data db builder ms
          (case filled of None \<Rightarrow> acc | Some m' \<Rightarrow> acc @ [m']) = (res', c')"
        by (cases "fill_messages env name data db builder ms
          (case filled of None \<Rightarrow> acc | Some m' \<Rightarrow> acc @ [m'])") auto
      note ih = Cons [of "case filled of None \<Rightarrow> acc | Some m' \<Rightarrow> acc @ [m']",
          unfolded rest snd_conv]
      show ?thesis using Pair Inr rest m ih by (simp add: map_filter_append)
    qed
  qed
qed

lemma templated_build_messages_calls:
  "filter is_send (snd (templated_build_messages env p s rs t data db builder)) = []
   \<and> List.map_filter attempt_of (snd (templated_build_messages env p s rs t data db builder)) = []
   \<and> filter is_session (snd (templated_build_messages env p s rs t data db builder)) = []
   \<and> filter is_select_usernames (snd (templated_build_messages env p s rs t data db builder)) = []"
  using fill_messages_calls [of env _ data db builder "basic_build_messages s rs t" "[]"]
  by (simp add: templated_build_messages_def split: option.splits)

lemma templated_built:
  assumes "platform_name (type_of platform) = Some name"
      and "templated_build_messages env platform sender recipients text data db builder
             = (Inr messages, calls)"
  shows "map recipient_of messages =
           filter (\<lambda>r. \<not> lookup_fails db name r \<and> \<not> builder_absent db name builder data r)
             recipients"
    and "map sender_of messages = replicate (length messages) sender"
    and "length messages + length (filter (lookup_fails db name) recipients)
           + length (filter (builder_absent db name builder data) recipients)
         = length recipients"
proof -
  have run: "fill_messages env name data db builder (basic_build_messages sender recipients text) []
          = (Inr messages, calls)"
    using assms by (simp add: templated_build_messages_def)
  have rs: "map recipient_of (basic_build_messages sender recipients text) = recipients"
    by (simp add: basic_build_messages_def comp_def)
  have ss: "sender_of ` set (basic_build_messages sender recipients text) \<subseteq> {sender}"
    by (auto simp: basic_build_messages_def)
  have len: "length (basic_build_messages sender recipients text) = length recipients"
    by (simp add: basic_build_messages_def)
  from fill_messages_built [OF run] obtain new where
    new: "messages = [] @ new"
      "map recipient_of new =
         filter (\<lambda>r. \<not> lookup_fails db name r \<and> \<not> builder_absent db name builder data r)
           (map recipient_of (basic_build_messages sender recipients text))"
      "sender_of ` set new \<subseteq> sender_of ` set (basic_build_messages sender recipients text)"
      "length new + length (filter (lookup_fails db name)
           (map recipient_of (basic_build_messages sender recipients text)))
         + length (filter (builder_absent db name builder data)
           (map recipient_of (basic_build_messages sender recipients text)))
       = length (basic_build_messages sender recipients text)"
    by blast
  show "map recipient_of messages =
           filter (\<lambda>r. \<not> lookup_fails db name r \<and> \<not> builder_absent db name builder data r)
             recipients"
    using new(1,2) rs by simp
  have "\<forall>m \<in> set messages. sender_of m = sender" using new(1,3) ss by auto
  then show "map sender_of messages = replicate (length messages) sender"
    by (simp add: map_replicate_const [symmetric] cong: map_cong)
  show "length messages + length (filter (lookup_fails db name) recipients)
           + length (filter (builder_absent db name builder data) recipients)
         = length recipients"
    using new(1,4) rs len by simp
qed

lemma templated_internal_run:
  assumes "templated_build_messages env platform sender recipients text data db builder
             = (Inr messages, calls)"
  shows "templated_send_to_all_internal env platform sender recipients text data db builder
           history = (Inr (), calls @ snd (send_messages env messages (history @ calls)))"
  using assms send_messages_returns [of env messages "history @ calls"]
  by (auto simp: templated_send_to_all_internal_def split: prod.splits)

lemma templated_internal_dispatch:
  assumes "templated_build_messages env platform sender recipients text data db builder
             = (Inr messages, calls)"
  shows "List.map_filter attempt_of (snd (templated_send_to_all_internal env platform sender
           recipients text data db builder history)) = map (\<lambda>m. get_id (recipient_of m)) messages"
    and "filter is_send (snd (templated_send_to_all_internal env platform sender
           recipients text data db builder history)) = send_calls_of messages"
  using templated_build_messages_calls [of env platform sender recipients "text" data db builder]
  by (simp_all add: templated_internal_run [OF assms] assms map_filter_append
        send_messages_attempts send_messages_sends)

lemma same_platform_call:
  "same_platform s r \<Longrightarrow> \<exists>c. send_message_call s r t = Inr c"
  by (cases s; cases r) auto

lemma send_calls_of_length:
  "(\<forall>m \<in> set ms. same_platform (sender_of m) (recipient_of m)) \<Longrightarrow>
     length (send_calls_of ms) = length ms"
proof (induction ms)
  case Nil
  show ?case by (simp add: send_calls_of_def)
next
  case (Cons m ms)
  then obtain c where
    "send_message_call (sender_of m) (recipient_of m) (content_of m) = Inr c"
    using same_platform_call [of "sender_of m" "recipient_of m" "content_of m"] by auto
  then have "send_calls_of [m] = [c]" by (simp add: send_calls_of_def)
  with Cons show ?case by (simp add: send_calls_of_Cons [of m ms])
qed

lemma new_EmailClientUser_kind:
  "new_EmailClientUser env server address password h = (Inr s, calls) \<Longrightarrow>
     s = EmailClientUser server address password"
  by (auto simp: new_EmailClientUser_def split: option.splits)

lemma email_build_sender_kind:
  "email_build_sender env servers data h = (Inr s, servers', calls) \<Longrightarrow>
     \<exists>server address password. s = EmailClientUser server address password"
  by (auto simp: email_build_sender_def split: sum.splits prod.splits
           dest: new_EmailClientUser_kind)

lemma slack_build_sender_kind:
  "slack_build_sender data = Inr s \<Longrightarrow> \<exists>username token. s = SlackClientUser username token"
  by (auto simp: slack_build_sender_def split: sum.splits list.splits)

lemma email_build_recipient_kind:
  "email_build_recipient data = Inr r \<Longrightarrow> \<exists>address. r = EmailUser address"
  by (cases data) (auto split: sum.splits list.splits)

lemma slack_build_recipient_kind:
  "slack_build_recipient data = Inr r \<Longrightarrow> \<exists>username. r = SlackUser username"
  by (cases data) (auto split: sum.splits list.splits)

lemma build_recipients_kind:
  "build_recipients platform ds = Inr rs \<Longrightarrow>
     \<forall>r \<in> set rs. (case platform of Slack \<Rightarrow> \<exists>u. r = SlackUser u
                                   | Email _ \<Rightarrow> \<exists>a. r = EmailUser a)"
proof (induction ds arbitrary: rs)
  case Nil
  then show ?case by simp
next
  case (Cons d ds)
  then obtain r rs' where r: "build_recipient platform d = Inr r"
    and rs': "build_recipients platform ds = Inr rs'" and rs: "rs = r # rs'"
    by (auto split: sum.splits)
  from r have "case platform of Slack \<Rightarrow> \<exists>u. r = SlackUser u | Email _ \<Rightarrow> \<exists>a. r = EmailUser a"
    by (cases platform)
       (auto dest: slack_build_recipient_kind email_build_recipient_kind)
  with Cons.IH [OF rs'] rs show ?case by simp
qed

lemma build_sender_kind:
  "build_sender env platform data h = (Inr s, platform', calls) \<Longrightarrow>
     (case platform' of Slack \<Rightarrow> \<exists>u t. s = SlackClientUser u t
                      | Email _ \<Rightarrow> \<exists>v a p. s = EmailClientUser v a p)"
  by (cases platform)
     (auto split: prod.splits dest: slack_build_sender_kind email_build_sender_kind)

lemma basic_build_resources_same_platform:
  assumes "basic_build_resources env name sender_data recipients_data t h = (Inr res, calls)"
  shows "\<forall>r \<in> set (r_recipients res). same_platform (r_sender res) r"
proof -
  from assms obtain cls platform where
    s: "build_sender env (new_platform cls) sender_data h = (Inr (r_sender res), platform, calls)"
    and rs: "build_recipients platform recipients_data = Inr (r_recipients res)"
    by (auto simp: basic_build_resources_def split: option.splits prod.splits sum.splits)
  from build_sender_kind [OF s] build_recipients_kind [OF rs]
  show ?thesis by (cases platform) auto
qed

text \<open>
  C4, as amended. In templated mode, whenever \<^verbatim>\<open>build_messages\<close> returns, the number of
  messages built is at most the number of recipients, and the shortfall is exactly the
  number of recipients whose directory lookup fails plus the number of recipients for
  which the template input builder returns \<^verbatim>\<open>None\<close>; a \<^verbatim>\<open>None\<close> produces no message, no
  error and no log record. The built messages are the ones sent: the send calls of
  \<^verbatim>\<open>_send_to_all\<close> are exactly those of the built messages, one call per message when the
  sender and the recipients are of one platform, as those that \<^verbatim>\<open>build_resources\<close>
  returns always are.
\<close>

theorem built_messages_shortfall:
  assumes "platform_name (type_of platform) = Some name"
      and "templated_build_messages env platform sender recipients text templating_data
             contact_db builder = (Inr messages, calls)"
  shows "length messages \<le> length recipients
       \<and> length messages + length (filter (lookup_fails contact_db name) recipients)
           + length (filter (builder_absent contact_db name builder templating_data) recipients)
         = length recipients
       \<and> filter is_send
           (snd (templated_send_to_all_internal env platform sender recipients text
                   templating_data contact_db builder history)) = send_calls_of messages
       \<and> ((\<forall>r \<in> set recipients. same_platform sender r) \<longrightarrow>
            length (send_calls_of messages) = length messages)
       \<and> (\<forall>sender_data recipients_data earlier res calls'.
            basic_build_resources env name sender_data recipients_data text earlier
              = (Inr res, calls')
            \<longrightarrow> (\<forall>r \<in> set (r_recipients res). same_platform (r_sender res) r))
       \<and> (\<forall>r. builder_absent contact_db name builder templating_data r \<longrightarrow>
            fill_message env name templating_data contact_db builder (Message sender r text)
              = (Inr None, [Select_Contact name (get_id r)]))"
proof (intro conjI allI impI)
  show eq: "length messages + length (filter (lookup_fails contact_db name) recipients)
           + length (filter (builder_absent contact_db name builder templating_data) recipients)
         = length recipients"
    by (rule templated_built(3) [OF assms])
  then show "length messages \<le> length recipients" by simp
next
  show "filter is_send
           (snd (templated_send_to_all_internal env platform sender recipients text
                   templating_data contact_db builder history)) = send_calls_of messages"
    by (rule templated_internal_dispatch(2) [OF assms(2)])
next
  assume same: "\<forall>r \<in> set recipients. same_platform sender r"
  have "set (map recipient_of messages) \<subseteq> set recipients"
    unfolding templated_built(1) [OF assms] by auto
  moreover have "set (map sender_of messages) \<subseteq> {sender}"
    unfolding templated_built(2) [OF assms] by auto
  ultimately have "\<forall>m \<in> set messages. same_platform (sender_of m) (recipient_of m)"
    using same by auto
  then show "length (send_calls_of messages) = length messages"
    by (rule send_calls_of_length)
next
  fix sender_data recipients_data earlier res calls'
  assume "basic_build_resources env name sender_data recipients_data text earlier
              = (Inr res, calls')"
  then show "\<forall>r \<in> set (r_recipients res). same_platform (r_sender res) r"
    by (rule basic_build_resources_same_platform)
next
  fix r assume "builder_absent contact_db name builder templating_data r"
  then show "fill_message env name templating_data contact_db builder (Message sender r text)
              = (Inr None, [Select_Contact name (get_id r)])"
    by (auto simp: builder_absent_def fill_message_def Let_def split: sum.splits)
qed

text \<open>
  Three recipients: one gets a message and its one send call, one is unknown to the
  directory, one has no template input.
\<close>

theorem built_messages_shortfall_witness:
  "platform_name (type_of (Email Map.empty)) = Some ''email''
   \<and> templated_build_messages sample_env (Email Map.empty) me
         [EmailUser (PStr ''a@x.com''), EmailUser (PStr ''zz''), EmailUser (PStr ''b@x.com'')]
         ''Hi {0}'' PNone (ContactDB sample_cursor) partial_builder =
       (Inr [Message me (EmailUser (PStr ''a@x.com'')) ''Hi Alice''],
        [Select_Contact ''email'' (PStr ''a@x.com''),
         Select_Contact ''email'' (PStr ''zz''), Logging (Skipped (PStr ''zz'')),
         Select_Contact ''email'' (PStr ''b@x.com'')])
   \<and> length (filter (lookup_fails (ContactDB sample_cursor) ''email'')
         [EmailUser (PStr ''a@x.com''), EmailUser (PStr ''zz''), EmailUser (PStr ''b@x.com'')]) = 1
   \<and> length (filter (builder_absent (ContactDB sample_cursor) ''email'' partial_builder PNone)
         [EmailUser (PStr ''a@x.com''), EmailUser (PStr ''zz''), EmailUser (PStr ''b@x.com'')]) = 1
   \<and> same_platform me (EmailUser (PStr ''a@x.com''))
   \<and> same_platform me (EmailUser (PStr ''zz''))
   \<and> same_platform me (EmailUser (PStr ''b@x.com''))
   \<and> filter is_send
         (snd (templated_send_to_all_internal sample_env (Email Map.empty) me
                 [EmailUser (PStr ''a@x.com''), EmailUser (PStr ''zz''),
                  EmailUser (PStr ''b@x.com'')]
                 ''Hi {0}'' PNone (ContactDB sample_cursor) partial_builder [])) =
       [Sendmail 0 (PStr ''me@x.com'') (PStr ''a@x.com'') ''Hi Alice'']
   \<and> length (send_calls_of [Message me (EmailUser (PStr ''a@x.com'')) ''Hi Alice'']) = 1
   \<and> basic_build_resources sample_env ''email'' sample_sender_data [PStr ''a@x.com'']
         ''Hi {0}'' [] =
       (Inr \<lparr>r_platform = Email [''x.com'' \<mapsto> 0], r_sender = me,
             r_recipients = [EmailUser (PStr ''a@x.com'')], r_content = ''Hi {0}''\<rparr>,
        [SMTP [(''host'', PStr ''smtp.x.com'')], StartTLS 0,
         Login 0 (PStr ''me@x.com'') (PStr ''secret'')])
   \<and> builder_absent (ContactDB sample_cursor) ''email'' partial_builder PNone
         (EmailUser (PStr ''b@x.com''))
   \<and> fill_message sample_env ''email'' PNone (ContactDB sample_cursor) partial_builder
         (Message me (EmailUser (PStr ''b@x.com'')) ''Hi {0}'') =
       (Inr None, [Select_Contact ''email'' (PStr ''b@x.com'')])"
proof -
  have name: "platform_name (type_of (Email Map.empty)) = Some ''email''"
    by (simp add: platform_name_def)
  have run: "templated_build_messages sample_env (Email Map.empty) me
         [EmailUser (PStr ''a@x.com''), EmailUser (PStr ''zz''), EmailUser (PStr ''b@x.com'')]
         ''Hi {0}'' PNone (ContactDB sample_cursor) partial_builder =
       (Inr [Message me (EmailUser (PStr ''a@x.com'')) ''Hi Alice''],
        [Select_Contact ''email'' (PStr ''a@x.com''),
         Select_Contact ''email'' (PStr ''zz''), Logging (Skipped (PStr ''zz'')),
         Select_Contact ''email'' (PStr ''b@x.com'')])"
    by (simp add: templated_build_messages_def basic_build_messages_def fill_message_def
          sample_env_def sample_cursor_def partial_builder_def py_format_def emit_def
          decimal_def is_digit_def platform_name_def Let_def)
  have absent: "builder_absent (ContactDB sample_cursor) ''email'' partial_builder PNone
         (EmailUser (PStr ''b@x.com''))"
    by (simp add: builder_absent_def sample_cursor_def partial_builder_def)
  have counts: "length (filter (lookup_fails (ContactDB sample_cursor) ''email'')
         [EmailUser (PStr ''a@x.com''), EmailUser (PStr ''zz''), EmailUser (PStr ''b@x.com'')]) = 1"
    "length (filter (builder_absent (ContactDB sample_cursor) ''email'' partial_builder PNone)
         [EmailUser (PStr ''a@x.com''), EmailUser (PStr ''zz''), EmailUser (PStr ''b@x.com'')]) = 1"
    by (simp_all add: lookup_fails_def builder_absent_def sample_cursor_def partial_builder_def)
  have same: "same_platform me (EmailUser (PStr ''a@x.com''))"
    "same_platform me (EmailUser (PStr ''zz''))"
    "same_platform me (EmailUser (PStr ''b@x.com''))"
    by (simp_all add: me_def)
  have sends: "send_calls_of [Message me (EmailUser (PStr ''a@x.com'')) ''Hi Alice''] =
       [Sendmail 0 (PStr ''me@x.com'') (PStr ''a@x.com'') ''Hi Alice'']"
    by (simp add: send_calls_of_def me_def)
  have resources: "basic_build_resources sample_env ''email'' sample_sender_data
         [PStr ''a@x.com''] ''Hi {0}'' [] =
       (Inr \<lparr>r_platform = Email [''x.com'' \<mapsto> 0], r_sender = me,
             r_recipients = [EmailUser (PStr ''a@x.com'')], r_content = ''Hi {0}''\<rparr>,
        [SMTP [(''host'', PStr ''smtp.x.com'')], StartTLS 0,
         Login 0 (PStr ''me@x.com'') (PStr ''secret'')])"
    by (simp add: basic_build_resources_def platform_class_def
          email_build_sender_def address_domain_def domain_server_def
          new_EmailClientUser_def index_def sample_sender_data_def
          sample_env_def me_def)
  note inst = built_messages_shortfall [OF name run, of "[]"]
  show ?thesis
    using name run absent counts same sends resources inst
    by simp
qed

text \<open>
  C4, as stated, fails on a run that a fatal error ends: here both recipients are found in
  the directory and neither has a \<^verbatim>\<open>None\<close> input, yet the numeric input of the second
  aborts \<^verbatim>\<open>build_messages\<close>, so that of two recipients none gets a message built or sent.
\<close>

theorem fatal_abort_breaks_shortfall:
  "templated_build_messages sample_env (Email Map.empty) me
       [EmailUser (PStr ''a@x.com''), EmailUser (PStr ''b@x.com'')]
       ''Hi {0}'' PNone (ContactDB sample_cursor) number_for_bob_builder =
     (Inl TypeError,
      [Select_Contact ''email'' (PStr ''a@x.com''), Select_Contact ''email'' (PStr ''b@x.com'')])
   \<and> templated_send_to_all_internal sample_env (Email Map.empty) me
       [EmailUser (PStr ''a@x.com''), EmailUser (PStr ''b@x.com'')]
       ''Hi {0}'' PNone (ContactDB sample_cursor) number_for_bob_builder [] =
     (Inl TypeError,
      [Select_Contact ''email'' (PStr ''a@x.com''), Select_Contact ''email'' (PStr ''b@x.com'')])
   \<and> length [EmailUser (PStr ''a@x.com''), EmailUser (PStr ''b@x.com'')] = 2
   \<and> length (filter (lookup_fails (ContactDB sample_cursor) ''email'')
       [EmailUser (PStr ''a@x.com''), EmailUser (PStr ''b@x.com'')]) = 0
   \<and> length (filter
       (builder_absent (ContactDB sample_cursor) ''email'' number_for_bob_builder PNone)
       [EmailUser (PStr ''a@x.com''), EmailUser (PStr ''b@x.com'')]) = 0"
  by (simp add: templated_send_to_all_internal_def templated_build_messages_def
        basic_build_messages_def fill_message_def lookup_fails_def builder_absent_def
        sample_env_def sample_cursor_def number_for_bob_builder_def py_format_def emit_def
        decimal_def is_digit_def platform_name_def Let_def)

section \<open>Order of dispatch\<close>

text \<open>
  C10. Messages are dispatched in the order of the recipient list. In plain mode the
  dispatch log records and the library's send calls follow the recipients one by one. In
  templated mode, when \<^verbatim>\<open>build_messages\<close> returns, the recipients of the built messages
  are the input recipients that were not skipped, in their input order (a subsequence of
  the input), every message keeps the given sender and its own recipient, and the
  dispatch follows the built messages one by one.
\<close>

theorem dispatch_keeps_recipient_order:
  "List.map_filter attempt_of
       (snd (basic_send_to_all_internal env sender recipients text history)) =
     map get_id recipients
   \<and> filter is_send (snd (basic_send_to_all_internal env sender recipients text history)) =
     send_calls_of (basic_build_messages sender recipients text)
   \<and> (platform_name (type_of platform) = Some name
        \<and> templated_build_messages env platform sender recipients text templating_data
             contact_db builder = (Inr messages, calls)
      \<longrightarrow> subseq (map recipient_of messages) recipients
        \<and> map recipient_of messages =
            filter (\<lambda>r. \<not> lookup_fails contact_db name r
                         \<and> \<not> builder_absent contact_db name builder templating_data r)
              recipients
        \<and> map sender_of messages = replicate (length messages) sender
        \<and> List.map_filter attempt_of
              (snd (templated_send_to_all_internal env platform sender recipients text
                      templating_data contact_db builder history)) =
            map (\<lambda>m. get_id (recipient_of m)) messages
        \<and> filter is_send
              (snd (templated_send_to_all_internal env platform sender recipients text
                      templating_data contact_db builder history)) =
            send_calls_of messages)"
proof (intro conjI impI)
  show "List.map_filter attempt_of
       (snd (basic_send_to_all_internal env sender recipients text history)) =
     map get_id recipients"
    by (simp add: basic_send_to_all_internal_def send_messages_attempts
          basic_build_messages_def comp_def)
  show "filter is_send (snd (basic_send_to_all_internal env sender recipients text history)) =
     send_calls_of (basic_build_messages sender recipients text)"
    by (simp add: basic_send_to_all_internal_def send_messages_sends)
next
  assume a: "platform_name (type_of platform) = Some name
        \<and> templated_build_messages env platform sender recipients text templating_data
             contact_db builder = (Inr messages, calls)"
  then have name: "platform_name (type_of platform) = Some name"
    and run: "templated_build_messages env platform sender recipients text templating_data
             contact_db builder = (Inr messages, calls)"
    by simp_all
  show rs: "map recipient_of messages =
            filter (\<lambda>r. \<not> lookup_fails contact_db name r
                         \<and> \<not> builder_absent contact_db name builder templating_data r)
              recipients"
    by (rule templated_built(1) [OF name run])
  show "subseq (map recipient_of messages) recipients"
    unfolding rs by (rule subseq_filter_left)
  show "map sender_of messages = replicate (length messages) sender"
    by (rule templated_built(2) [OF name run])
  show "List.map_filter attempt_of
              (snd (templated_send_to_all_internal env platform sender recipients text
                      templating_data contact_db builder history)) =
            map (\<lambda>m. get_id (recipient_of m)) messages"
    by (rule templated_internal_dispatch(1) [OF run])
  show "filter is_send
              (snd (templated_send_to_all_internal env platform sender recipients text
                      templating_data contact_db builder history)) =
            send_calls_of messages"
    by (rule templated_internal_dispatch(2) [OF run])
qed

text \<open>Recipients given as b, zz, a: zz is skipped and b is served before a.\<close>

theorem dispatch_keeps_recipient_order_witness:
  "platform_name (type_of (Email Map.empty)) = Some ''email''
   \<and> templated_build_messages sample_env (Email Map.empty) me
         [EmailUser (PStr ''b@x.com''), EmailUser (PStr ''zz''), EmailUser (PStr ''a@x.com'')]
         ''Hi {0}'' PNone (ContactDB sample_cursor) names_builder =
       (Inr [Message me (EmailUser (PStr ''b@x.com'')) ''Hi Bob'',
             Message me (EmailUser (PStr ''a@x.com'')) ''Hi Alice''],
        [Select_Contact ''email'' (PStr ''b@x.com''),
         Select_Contact ''email'' (PStr ''zz''), Logging (Skipped (PStr ''zz'')),
         Select_Contact ''email'' (PStr ''a@x.com'')])
   \<and> subseq [EmailUser (PStr ''b@x.com''), EmailUser (PStr ''a@x.com'')]
        [EmailUser (PStr ''b@x.com''), EmailUser (PStr ''zz''), EmailUser (PStr ''a@x.com'')]
   \<and> filter is_send
        (snd (templated_send_to_all_internal sample_env (Email Map.empty) me
               [EmailUser (PStr ''b@x.com''), EmailUser (PStr ''zz''),
                EmailUser (PStr ''a@x.com'')]
               ''Hi {0}'' PNone (ContactDB sample_cursor) names_builder [])) =
       [Sendmail 0 (PStr ''me@x.com'') (PStr ''b@x.com'') ''Hi Bob'',
        Sendmail 0 (PStr ''me@x.com'') (PStr ''a@x.com'') ''Hi Alice'']"
proof -
  have name: "platform_name (type_of (Email Map.empty)) = Some ''email''"
    by (simp add: platform_name_def)
  have run: "templated_build_messages sample_env (Email Map.empty) me
         [EmailUser (PStr ''b@x.com''), EmailUser (PStr ''zz''), EmailUser (PStr ''a@x.com'')]
         ''Hi {0}'' PNone (ContactDB sample_cursor) names_builder =
       (Inr [Message me (EmailUser (PStr ''b@x.com'')) ''Hi Bob'',
             Message me (EmailUser (PStr ''a@x.com'')) ''Hi Alice''],
        [Select_Contact ''email'' (PStr ''b@x.com''),
         Select_Contact ''email'' (PStr ''zz''), Logging (Skipped (PStr ''zz'')),
         Select_Contact ''email'' (PStr ''a@x.com'')])"
    by (simp add: templated_build_messages_def basic_build_messages_def fill_message_def
          sample_env_def sample_cursor_def names_builder_def py_format_def emit_def
          decimal_def is_digit_def platform_name_def Let_def)
  have calls: "send_calls_of [Message me (EmailUser (PStr ''b@x.com'')) ''Hi Bob'',
             Message me (EmailUser (PStr ''a@x.com'')) ''Hi Alice''] =
       [Sendmail 0 (PStr ''me@x.com'') (PStr ''b@x.com'') ''Hi Bob'',
        Sendmail 0 (PStr ''me@x.com'') (PStr ''a@x.com'') ''Hi Alice'']"
    by (simp add: send_calls_of_def me_def)
  from dispatch_keeps_recipient_order [of sample_env me
      "[EmailUser (PStr ''b@x.com''), EmailUser (PStr ''zz''), EmailUser (PStr ''a@x.com'')]"
      "''Hi {0}''" "[]" "Email Map.empty" "''email''" PNone "ContactDB sample_cursor"
      names_builder
      "[Message me (EmailUser (PStr ''b@x.com'')) ''Hi Bob'',
        Message me (EmailUser (PStr ''a@x.com'')) ''Hi Alice'']"]
  show ?thesis using name run calls by simp
qed

section \<open>The shape of the template input\<close>

lemma fill_message_not_iterable:
  assumes "get_contact db name (get_id r) = Inr user"
      and "builder user data = Inr template_input"
      and "template_input \<noteq> PNone"
      and "unpack template_input = Inl TypeError"
  shows "fill_message env name data db builder (Message s r t) =
           (Inl TypeError, [Select_Contact name (get_id r)])"
  using assms by (simp add: fill_message_def Let_def)

text \<open>
  C1, as amended. In templated mode, if the loop reaches a recipient for which the
  template input builder returns a value that cannot be unpacked as an iterable (a
  number, a boolean), \<^verbatim>\<open>build_messages\<close> raises TypeError: the messages already built
  are dropped, the remaining recipients are not looked at, and \<^verbatim>\<open>_send_to_all\<close> raises the
  same error without having made any send call.
\<close>

theorem not_iterable_template_input_is_fatal:
  assumes "platform_name (type_of platform) = Some name"
      and "templated_build_messages env platform sender before text templating_data
             contact_db builder = (Inr messages, calls)"
      and "get_contact contact_db name (get_id r) = Inr user"
      and "builder user templating_data = Inr template_input"
      and "template_input \<noteq> PNone"
      and "unpack template_input = Inl TypeError"
  shows "templated_build_messages env platform sender (before @ r # after) text
            templating_data contact_db builder =
           (Inl TypeError, calls @ [Select_Contact name (get_id r)])
       \<and> templated_send_to_all_internal env platform sender (before @ r # after) text
            templating_data contact_db builder history =
           (Inl TypeError, calls @ [Select_Contact name (get_id r)])
       \<and> filter is_send (calls @ [Select_Contact name (get_id r)]) = []"
proof -
  have before: "fill_messages env name templating_data contact_db builder
                  (basic_build_messages sender before text) [] = (Inr messages, calls)"
    using assms(1,2) by (simp add: templated_build_messages_def)
  have build: "templated_build_messages env platform sender (before @ r # after) text
            templating_data contact_db builder =
           (Inl TypeError, calls @ [Select_Contact name (get_id r)])"
    using before fill_message_not_iterable [where builder=builder and data=templating_data
        and env=env and s=sender and t="text", OF assms(3-6)]
    by (simp add: templated_build_messages_def assms(1) basic_build_messages_append
          basic_build_messages_Cons fill_messages_append)
  have quiet: "filter is_send (calls @ [Select_Contact name (get_id r)]) = []"
    using templated_build_messages_calls
      [of env platform sender "before @ r # after" "text" templating_data contact_db builder]
    by (simp add: build)
  show ?thesis using build quiet by (simp add: templated_send_to_all_internal_def)
qed

text \<open>
  The builder serves Alice and returns the number 7 for Bob: Alice's message is never
  sent, and the third recipient is not looked up.
\<close>

theorem not_iterable_template_input_is_fatal_witness:
  "platform_name (type_of (Email Map.empty)) = Some ''email''
   \<and> templated_build_messages sample_env (Email Map.empty) me [EmailUser (PStr ''a@x.com'')]
        ''Hi {0}'' PNone (ContactDB sample_cursor) number_for_bob_builder =
       (Inr [Message me (EmailUser (PStr ''a@x.com'')) ''Hi Alice''],
        [Select_Contact ''email'' (PStr ''a@x.com'')])
   \<and> get_contact (ContactDB sample_cursor) ''email'' (get_id (EmailUser (PStr ''b@x.com'')))
       = Inr 2
   \<and> number_for_bob_builder 2 PNone = Inr (PInt 7)
   \<and> PInt 7 \<noteq> PNone
   \<and> unpack (PInt 7) = Inl TypeError
   \<and> templated_send_to_all_internal sample_env (Email Map.empty) me
        ([EmailUser (PStr ''a@x.com'')] @ EmailUser (PStr ''b@x.com'')
           # [EmailUser (PStr ''a@x.com'')])
        ''Hi {0}'' PNone (ContactDB sample_cursor) number_for_bob_builder [] =
       (Inl TypeError,
        [Select_Contact ''email'' (PStr ''a@x.com''),
         Select_Contact ''email'' (PStr ''b@x.com'')])"
proof -
  have name: "platform_name (type_of (Email Map.empty)) = Some ''email''"
    by (simp add: platform_name_def)
  have before: "templated_build_messages sample_env (Email Map.empty) me
        [EmailUser (PStr ''a@x.com'')]
        ''Hi {0}'' PNone (ContactDB sample_cursor) number_for_bob_builder =
       (Inr [Message me (EmailUser (PStr ''a@x.com'')) ''Hi Alice''],
        [Select_Contact ''email'' (PStr ''a@x.com'')])"
    by (simp add: templated_build_messages_def basic_build_messages_def fill_message_def
          sample_env_def sample_cursor_def number_for_bob_builder_def py_format_def emit_def
          decimal_def is_digit_def platform_name_def Let_def)
  have lookup: "get_contact (ContactDB sample_cursor) ''email''
       (get_id (EmailUser (PStr ''b@x.com''))) = Inr 2"
    by (simp add: sample_cursor_def)
  have input: "number_for_bob_builder 2 PNone = Inr (PInt 7)"
    by (simp add: number_for_bob_builder_def)
  have shape: "PInt 7 \<noteq> PNone" "unpack (PInt 7) = Inl TypeError"
    by simp_all
  show ?thesis
    using name before lookup input shape
      not_iterable_template_input_is_fatal [where builder=number_for_bob_builder
        and templating_data=PNone and after="[EmailUser (PStr ''a@x.com'')]" and history="[]",
        OF name before lookup input shape]
    by simp
qed

text \<open>
  C1, as stated, fails: the check is the TypeError of unpacking. With the template
  \<^verbatim>\<open>Hi {0}\<close>, a builder that returns the bare string \<^verbatim>\<open>Alice\<close> has it unpacked into its
  characters, and one that returns the dict \<^verbatim>\<open>{'Alice': 1}\<close> has it unpacked into its
  keys; neither value is an ordered sequence of substitution values, neither run raises,
  and both messages are built and sent.
\<close>

theorem iterable_template_input_is_accepted:
  "get_contact (ContactDB sample_cursor) ''email'' (PStr ''a@x.com'') = Inr 1
   \<and> bare_string_builder 1 PNone = Inr (PStr ''Alice'')
   \<and> templated_build_messages sample_env (Email Map.empty) me
        [EmailUser (PStr ''a@x.com'')] ''Hi {0}'' PNone (ContactDB sample_cursor)
        bare_string_builder =
       (Inr [Message me (EmailUser (PStr ''a@x.com'')) ''Hi A''],
        [Select_Contact ''email'' (PStr ''a@x.com'')])
   \<and> templated_send_to_all_internal sample_env (Email Map.empty) me
        [EmailUser (PStr ''a@x.com'')] ''Hi {0}'' PNone (ContactDB sample_cursor)
        bare_string_builder [] =
       (Inr (),
        [Select_Contact ''email'' (PStr ''a@x.com''),
         Sendmail 0 (PStr ''me@x.com'') (PStr ''a@x.com'') ''Hi A'',
         Logging (Sent (PStr ''a@x.com'') ''Hi A'')])
   \<and> dict_builder 1 PNone = Inr (PDict [(''Alice'', PInt 1)])
   \<and> templated_send_to_all_internal sample_env (Email Map.empty) me
        [EmailUser (PStr ''a@x.com'')] ''Hi {0}'' PNone (ContactDB sample_cursor)
        dict_builder [] =
       (Inr (),
        [Select_Contact ''email'' (PStr ''a@x.com''),
         Sendmail 0 (PStr ''me@x.com'') (PStr ''a@x.com'') ''Hi Alice'',
         Logging (Sent (PStr ''a@x.com'') ''Hi Alice'')])"
  by (simp add: templated_send_to_all_internal_def templated_build_messages_def
        basic_build_messages_def fill_message_def send_message_def send_def me_def
        sample_env_def sample_cursor_def bare_string_builder_def dict_builder_def
        py_format_def emit_def decimal_def is_digit_def platform_name_def Let_def)

section \<open>The e-mail adapter keeps one session per mail domain\<close>

lemma new_EmailClientUser_session:
  "new_EmailClientUser env server address password h = (Inr s, calls) \<Longrightarrow>
     session_of s = Some server"
  by (auto simp: new_EmailClientUser_def split: option.splits)

lemma new_EmailClientUser_calls:
  "\<forall>c \<in> set (snd (new_EmailClientUser env server address password h)).
     \<not> is_session c \<and> \<not> is_send c \<and> attempt_of c = None \<and> \<not> is_select_usernames c"
  by (auto simp: new_EmailClientUser_def split: option.splits)

lemma domain_server_cached:
  "domain_server env servers domain data h = (Inr server, servers', calls) \<Longrightarrow>
     servers' domain = Some server"
  by (auto simp: domain_server_def split: option.splits sum.splits)

lemma domain_server_hit:
  "servers domain = Some server \<Longrightarrow>
     domain_server env servers domain data h = (Inr server, servers, [])"
  by (simp add: domain_server_def)

lemma domain_server_calls:
  "\<forall>c \<in> set (snd (snd (domain_server env servers domain data h))).
     \<not> is_send c \<and> attempt_of c = None \<and> \<not> is_select_usernames c"
  by (auto simp: domain_server_def split: option.splits sum.splits)

lemma email_build_sender_first:
  assumes "email_build_sender env servers data h = (Inr s, servers', calls)"
      and "address_domain data = Inr domain"
  shows "servers' domain = session_of s \<and> session_of s \<noteq> None"
  using assms
  by (auto simp: email_build_sender_def split: sum.splits prod.splits
           dest!: domain_server_cached new_EmailClientUser_session)

lemma email_build_sender_hit:
  assumes "servers domain = Some server"
      and "address_domain data = Inr domain"
  shows "filter is_session (snd (snd (email_build_sender env servers data h))) = []
       \<and> fst (snd (email_build_sender env servers data h)) = servers
       \<and> (\<forall>s. fst (email_build_sender env servers data h) = Inr s
              \<longrightarrow> session_of s = Some server)"
proof -
  have calls: "new_EmailClientUser env server a p h' = (x, cs) \<Longrightarrow> filter is_session cs = []"
    for a p h' x cs
    using new_EmailClientUser_calls [of env server a p h'] by (simp add: filter_empty_conv)
  show ?thesis
    using assms calls
    by (auto simp: email_build_sender_def domain_server_hit split: sum.splits prod.splits
             dest: new_EmailClientUser_session)
qed

text \<open>
  C9, as amended. The e-mail adapter's \<^verbatim>\<open>build_sender\<close> reuses the session it has already
  constructed for the mail domain of the sender's address: once a call has built a sender
  of a domain, every later call on the same adapter for a sender of that domain,
  whatever the rest of its data, constructs no \<^verbatim>\<open>smtplib.SMTP\<close> session, leaves the cache
  as it is, and returns a sender that holds the very session of the first.
\<close>

theorem email_session_is_reused:
  assumes "build_sender env (Email servers) first_data history =
             (Inr first_sender, platform, calls)"
      and "address_domain first_data = Inr domain"
      and "address_domain second_data = Inr domain"
  shows "filter is_session (snd (snd (build_sender env platform second_data later))) = []
       \<and> fst (snd (build_sender env platform second_data later)) = platform
       \<and> (\<forall>second_sender.
            fst (build_sender env platform second_data later) = Inr second_sender
            \<longrightarrow> session_of second_sender = session_of first_sender)"
proof -
  from assms(1) obtain servers' where
    p: "platform = Email servers'" and
    first: "email_build_sender env servers first_data history = (Inr first_sender, servers', calls)"
    by (auto split: prod.splits)
  from email_build_sender_first [OF first assms(2)] obtain server where
    cached: "servers' domain = Some server" and s1: "session_of first_sender = Some server"
    by auto
  from email_build_sender_hit [where servers=servers' and env=env and h=later, OF cached assms(3)]
  show ?thesis by (cases "email_build_sender env servers' second_data later") (simp add: p s1)
qed

text \<open>Two senders at \<^verbatim>\<open>x.com\<close>: the second call opens no session.\<close>

theorem email_session_is_reused_witness:
  "build_sender sample_env (Email Map.empty) sample_sender_data [] =
     (Inr me, Email [''x.com'' \<mapsto> 0],
      [SMTP [(''host'', PStr ''smtp.x.com'')], StartTLS 0,
       Login 0 (PStr ''me@x.com'') (PStr ''secret'')])
   \<and> address_domain sample_sender_data = Inr ''x.com''
   \<and> address_domain colleague_sender_data = Inr ''x.com''
   \<and> build_sender sample_env (Email [''x.com'' \<mapsto> 0]) colleague_sender_data
        [SMTP [(''host'', PStr ''smtp.x.com'')], StartTLS 0,
         Login 0 (PStr ''me@x.com'') (PStr ''secret'')] =
     (Inr (EmailClientUser 0 (PStr ''you@x.com'') (PStr ''hunter2'')),
      Email [''x.com'' \<mapsto> 0],
      [StartTLS 0, Login 0 (PStr ''you@x.com'') (PStr ''hunter2'')])
   \<and> session_of (EmailClientUser 0 (PStr ''you@x.com'') (PStr ''hunter2'')) = session_of me"
proof -
  have first: "build_sender sample_env (Email Map.empty) sample_sender_data [] =
     (Inr me, Email [''x.com'' \<mapsto> 0],
      [SMTP [(''host'', PStr ''smtp.x.com'')], StartTLS 0,
       Login 0 (PStr ''me@x.com'') (PStr ''secret'')])"
    by (simp add: email_build_sender_def address_domain_def domain_server_def
          new_EmailClientUser_def index_def sample_env_def sample_sender_data_def me_def)
  have d1: "address_domain sample_sender_data = Inr ''x.com''"
    by (simp add: address_domain_def index_def sample_sender_data_def)
  have d2: "address_domain colleague_sender_data = Inr ''x.com''"
    by (simp add: address_domain_def index_def colleague_sender_data_def)
  have second: "build_sender sample_env (Email [''x.com'' \<mapsto> 0]) colleague_sender_data
        [SMTP [(''host'', PStr ''smtp.x.com'')], StartTLS 0,
         Login 0 (PStr ''me@x.com'') (PStr ''secret'')] =
     (Inr (EmailClientUser 0 (PStr ''you@x.com'') (PStr ''hunter2'')),
      Email [''x.com'' \<mapsto> 0],
      [StartTLS 0, Login 0 (PStr ''you@x.com'') (PStr ''hunter2'')])"
    by (simp add: email_build_sender_def address_domain_def domain_server_def
          new_EmailClientUser_def index_def sample_env_def colleague_sender_data_def)
  show ?thesis
    using first d1 d2 second
      email_session_is_reused [OF first d1 d2,
        of "[SMTP [(''host'', PStr ''smtp.x.com'')], StartTLS 0,
             Login 0 (PStr ''me@x.com'') (PStr ''secret'')]"]
    by simp
qed

text \<open>
  C9, as stated, fails: the cache is keyed by the domain of the sender's address, not by
  the endpoint. Two senders whose \<^verbatim>\<open>smtp\<close> entries are the same endpoint, with addresses
  at \<^verbatim>\<open>a.com\<close> and \<^verbatim>\<open>b.com\<close>: the second call constructs a second session.
\<close>

theorem same_endpoint_other_domain_opens_new_session:
  "subscript (sender_at ''me@a.com'') ''smtp'' = subscript (sender_at ''you@b.com'') ''smtp''
   \<and> build_sender sample_env (Email Map.empty) (sender_at ''me@a.com'') [] =
       (Inr (EmailClientUser 0 (PStr ''me@a.com'') (PStr ''secret'')),
        Email [''a.com'' \<mapsto> 0],
        [SMTP [(''host'', PStr ''smtp.x.com'')], StartTLS 0,
         Login 0 (PStr ''me@a.com'') (PStr ''secret'')])
   \<and> build_sender sample_env (Email [''a.com'' \<mapsto> 0]) (sender_at ''you@b.com'')
         [SMTP [(''host'', PStr ''smtp.x.com'')], StartTLS 0,
          Login 0 (PStr ''me@a.com'') (PStr ''secret'')] =
       (Inr (EmailClientUser 3 (PStr ''you@b.com'') (PStr ''secret'')),
        Email [''a.com'' \<mapsto> 0, ''b.com'' \<mapsto> 3],
        [SMTP [(''host'', PStr ''smtp.x.com'')], StartTLS 3,
         Login 3 (PStr ''you@b.com'') (PStr ''secret'')])"
  by (simp add: email_build_sender_def address_domain_def domain_server_def
        new_EmailClientUser_def index_def sample_env_def sender_at_def numeral_3_eq_3)

section \<open>The phases of a broadcast\<close>

lemma email_build_sender_calls:
  "\<forall>c \<in> set (snd (snd (email_build_sender env servers data h))).
     \<not> is_send c \<and> attempt_of c = None \<and> \<not> is_select_usernames c"
proof (cases "address_domain data")
  case (Inl e)
  then show ?thesis by (simp add: email_build_sender_def)
next
  case (Inr domain)
  obtain r servers' calls where
    d: "domain_server env servers domain data h = (r, servers', calls)"
    by (cases "domain_server env servers domain data h") auto
  have calls: "\<forall>c \<in> set calls. \<not> is_send c \<and> attempt_of c = None \<and> \<not> is_select_usernames c"
    using domain_server_calls [of env servers domain data h] d by simp
  show ?thesis
  proof (cases r)
    case (Inl e)
    with Inr d calls show ?thesis by (simp add: email_build_sender_def)
  next
    case server: (Inr server)
    have nc: "new_EmailClientUser env server a p h' = (x, cs) \<Longrightarrow> c \<in> set cs \<Longrightarrow>
                \<not> is_send c \<and> attempt_of c = None \<and> \<not> is_select_usernames c"
      for a p h' x cs c
      using new_EmailClientUser_calls [of env server a p h'] by auto
    show ?thesis
      using Inr d server calls
      by (auto simp: email_build_sender_def split: sum.splits prod.splits dest: nc)
  qed
qed

lemma build_sender_calls:
  "\<forall>c \<in> set (snd (snd (build_sender env platform data h))).
     \<not> is_send c \<and> attempt_of c = None \<and> \<not> is_select_usernames c"
proof (cases platform)
  case Slack
  then show ?thesis by simp
next
  case (Email servers)
  then show ?thesis
    using email_build_sender_calls [of env servers data h]
    by (cases "email_build_sender env servers data h") simp
qed

lemma basic_build_resources_calls:
  "\<forall>c \<in> set (snd (basic_build_resources env name sender_data recipients_data t h)).
     \<not> is_send c \<and> attempt_of c = None \<and> \<not> is_select_usernames c"
proof (cases "platform_class name")
  case None
  then show ?thesis by (simp add: basic_build_resources_def)
next
  case (Some cls)
  show ?thesis
    using Some build_sender_calls [of env "new_platform cls" sender_data h]
    by (cases "build_sender env (new_platform cls) sender_data h")
       (auto simp: basic_build_resources_def split: sum.splits)
qed

lemma send_message_kinds:
  "\<forall>c \<in> set (snd (send_message env m h)). is_send c \<or> attempt_of c \<noteq> None"
  using send_calls [of env m h]
  by (auto simp: send_message_def Let_def split: prod.splits sum.splits)

lemma send_messages_kinds:
  "\<forall>c \<in> set (snd (send_messages env ms h)). is_send c \<or> attempt_of c \<noteq> None"
proof (induction ms arbitrary: h)
  case Nil
  show ?case by simp
next
  case (Cons m ms)
  show ?case
    using send_message_kinds [of env m h] Cons [of "h @ snd (send_message env m h)"]
    by (simp only: send_messages_Cons snd_conv set_append ball_Un)
qed

lemma kinds_not_select:
  "is_send c \<or> attempt_of c \<noteq> None \<Longrightarrow> \<not> is_select_usernames c"
  by (cases c) auto

lemma build_recipients_usernames:
  "\<exists>recipients. build_recipients platform (map PStr usernames) = Inr recipients
     \<and> map get_id recipients = map PStr usernames"
proof (induction usernames)
  case Nil
  show ?case by simp
next
  case (Cons u us)
  then obtain rs where rs: "build_recipients platform (map PStr us) = Inr rs"
    "map get_id rs = map PStr us" by blast
  show ?case using rs by (cases platform) auto
qed

lemma basic_build_resources_quiet:
  "filter is_send (snd (basic_build_resources env name sd rd t h)) = []"
  "filter is_select_usernames (snd (basic_build_resources env name sd rd t h)) = []"
  using basic_build_resources_calls [of env name sd rd t h]
  by (simp_all add: filter_empty_conv)

lemma send_messages_dispatch_only:
  "filter (\<lambda>c. \<not> is_send c \<and> attempt_of c = None) (snd (send_messages env ms h)) = []"
  "filter is_select_usernames (snd (send_messages env ms h)) = []"
  using send_messages_kinds [of env ms h] kinds_not_select
  by (auto simp: filter_empty_conv)

lemma basic_send_to_all_run:
  "basic_send_to_all env name sd rd t h =
     (case basic_build_resources env name sd rd t h of
        (Inl e, calls) \<Rightarrow> (Inl e, calls)
      | (Inr res, calls) \<Rightarrow>
          (Inr (), calls @ snd (send_messages env
             (basic_build_messages (r_sender res) (r_recipients res) (r_content res))
             (h @ calls))))"
proof (cases "basic_build_resources env name sd rd t h")
  case (Pair r calls)
  show ?thesis
  proof (cases r)
    case (Inl e)
    with Pair show ?thesis by (simp add: basic_send_to_all_def)
  next
    case (Inr res)
    have "fst (send_messages env
             (basic_build_messages (r_sender res) (r_recipients res) (r_content res))
             (h @ calls)) = Inr ()"
      by (rule send_messages_returns)
    with Pair Inr show ?thesis
      by (auto simp: basic_send_to_all_def basic_send_to_all_internal_def split: prod.splits)
  qed
qed

lemma templated_internal_phases:
  "\<exists>building dispatch.
     snd (templated_send_to_all_internal env p s rs t td db builder h) = building @ dispatch
     \<and> filter is_send building = []
     \<and> filter is_select_usernames (building @ dispatch) = []
     \<and> filter (\<lambda>c. \<not> is_send c \<and> attempt_of c = None) dispatch = []
     \<and> (fst (templated_send_to_all_internal env p s rs t td db builder h) \<noteq> Inr ()
          \<longrightarrow> dispatch = [])"
proof (cases "templated_build_messages env p s rs t td db builder")
  case (Pair r calls)
  note quiet = templated_build_messages_calls [of env p s rs t td db builder, unfolded Pair snd_conv]
  show ?thesis
  proof (cases r)
    case (Inl e)
    with Pair quiet show ?thesis
      by (intro exI [of _ calls] exI [of _ "[]"])
         (simp add: templated_send_to_all_internal_def)
  next
    case (Inr messages)
    with Pair quiet show ?thesis
      by (intro exI [of _ calls] exI [of _ "snd (send_messages env messages (h @ calls))"])
         (simp add: templated_internal_run send_messages_dispatch_only)
  qed
qed

lemma build_contact_db_run:
  "build_contact_db env user h =
     (case raises env h (Connect user) of
        Some e \<Rightarrow> Inl e | None \<Rightarrow> Inr (ContactDB (connect env user)), [Connect user])"
  by (simp add: build_contact_db_def split: option.splits)

lemma templated_build_resources_quiet:
  "filter is_send (snd (templated_build_resources env name sd rd t td dbu h)) = []"
proof -
  have "filter is_send (snd (basic_build_resources env name sd rd' t h')) = []" for rd' h'
    by (rule basic_build_resources_quiet)
  then have b: "basic_build_resources env name sd rd' t h' = (r, cs) \<Longrightarrow> filter is_send cs = []"
    for rd' h' r cs by (metis snd_conv)
  show ?thesis
    by (auto simp: templated_build_resources_def build_contact_db_run Let_def
             split: option.splits prod.splits sum.splits if_splits dest: b)
qed

text \<open>
  C8. In both modes the calls of \<^verbatim>\<open>send_to_all\<close> are those of resource construction, then
  (templated mode) those of message building, then those of the dispatch loop. The first
  two phases make no send call, the dispatch makes nothing but send calls and their log
  records, and when \<^verbatim>\<open>send_to_all\<close> raises (an unknown platform name, a sender that cannot
  be constructed, a directory that cannot be reached, a template input of the wrong shape)
  the dispatch is empty: the error was raised before any send was attempted.
\<close>

theorem fatal_errors_precede_every_send:
  "(\<exists>dispatch.
      snd (basic_send_to_all env name sender_data recipients_data text history) =
        snd (basic_build_resources env name sender_data recipients_data text history)
          @ dispatch
      \<and> filter is_send
          (snd (basic_build_resources env name sender_data recipients_data text history)) = []
      \<and> filter (\<lambda>c. \<not> is_send c \<and> attempt_of c = None) dispatch = []
      \<and> (fst (basic_send_to_all env name sender_data recipients_data text history) \<noteq> Inr ()
           \<longrightarrow> dispatch = []))
   \<and> (\<exists>building dispatch.
      snd (templated_send_to_all env name sender_data recipients_data text templating_data
             db_username builder history) =
        snd (templated_build_resources env name sender_data recipients_data text
               templating_data db_username history) @ building @ dispatch
      \<and> filter is_send
          (snd (templated_build_resources env name sender_data recipients_data text
                  templating_data db_username history) @ building) = []
      \<and> filter (\<lambda>c. \<not> is_send c \<and> attempt_of c = None) dispatch = []
      \<and> (fst (templated_send_to_all env name sender_data recipients_data text
                templating_data db_username builder history) \<noteq> Inr ()
           \<longrightarrow> dispatch = []))"
proof
  show "\<exists>dispatch.
      snd (basic_send_to_all env name sender_data recipients_data text history) =
        snd (basic_build_resources env name sender_data recipients_data text history)
          @ dispatch
      \<and> filter is_send
          (snd (basic_build_resources env name sender_data recipients_data text history)) = []
      \<and> filter (\<lambda>c. \<not> is_send c \<and> attempt_of c = None) dispatch = []
      \<and> (fst (basic_send_to_all env name sender_data recipients_data text history) \<noteq> Inr ()
           \<longrightarrow> dispatch = [])"
  proof (cases "basic_build_resources env name sender_data recipients_data text history")
    case (Pair r calls)
    note quiet = basic_build_resources_quiet(1)
      [of env name sender_data recipients_data "text" history, unfolded Pair snd_conv]
    show ?thesis
    proof (cases r)
      case (Inl e)
      with Pair quiet show ?thesis
        by (intro exI [of _ "[]"]) (simp add: basic_send_to_all_run)
    next
      case (Inr res)
      with Pair quiet show ?thesis
        by (intro exI [of _ "snd (send_messages env
             (basic_build_messages (r_sender res) (r_recipients res) (r_content res))
             (history @ calls))"])
           (simp add: basic_send_to_all_run send_messages_dispatch_only)
    qed
  qed
next
  show "\<exists>building dispatch.
      snd (templated_send_to_all env name sender_data recipients_data text templating_data
             db_username builder history) =
        snd (templated_build_resources env name sender_data recipients_data text
               templating_data db_username history) @ building @ dispatch
      \<and> filter is_send
          (snd (templated_build_resources env name sender_data recipients_data text
                  templating_data db_username history) @ building) = []
      \<and> filter (\<lambda>c. \<not> is_send c \<and> attempt_of c = None) dispatch = []
      \<and> (fst (templated_send_to_all env name sender_data recipients_data text
                templating_data db_username builder history) \<noteq> Inr ()
           \<longrightarrow> dispatch = [])"
  proof (cases "templated_build_resources env name sender_data recipients_data text
               templating_data db_username history")
    case (Pair r calls)
    note quiet = templated_build_resources_quiet
      [of env name sender_data recipients_data "text" templating_data db_username history,
       unfolded Pair snd_conv]
    show ?thesis
    proof (cases r)
      case (Inl e)
      with Pair quiet show ?thesis
        by (intro exI [of _ "[]"]) (simp add: templated_send_to_all_def)
    next
      case (Inr res)
      from templated_internal_phases [of env "r_platform res" "r_sender res"
          "r_recipients res" "r_content res" "r_templating_data res" "r_contact_db res"
          builder "history @ calls"]
      obtain building dispatch where
        run: "snd (templated_send_to_all_internal env (r_platform res) (r_sender res)
                (r_recipients res) (r_content res) (r_templating_data res) (r_contact_db res)
                builder (history @ calls)) = building @ dispatch"
        and b: "filter is_send building = []"
        and d: "filter (\<lambda>c. \<not> is_send c \<and> attempt_of c = None) dispatch = []"
        and e: "fst (templated_send_to_all_internal env (r_platform res) (r_sender res)
                (r_recipients res) (r_content res) (r_templating_data res) (r_contact_db res)
                builder (history @ calls)) \<noteq> Inr () \<longrightarrow> dispatch = []"
        by blast
      have all: "templated_send_to_all env name sender_data recipients_data text
             templating_data db_username builder history =
           (fst (templated_send_to_all_internal env (r_platform res) (r_sender res)
                (r_recipients res) (r_content res) (r_templating_data res) (r_contact_db res)
                builder (history @ calls)), calls @ building @ dispatch)"
        using Pair Inr run [symmetric]
        by (simp add: templated_send_to_all_def split: prod.splits)
      show ?thesis
        using Pair quiet b d e
        by (intro exI [of _ building] exI [of _ dispatch]) (simp add: all)
    qed
  qed
qed

text \<open>
  An unregistered platform name in plain mode, and a numeric template input for the
  second recipient in templated mode: both runs raise, neither sends.
\<close>

theorem fatal_errors_precede_every_send_witness:
  "fst (basic_send_to_all sample_env ''sms'' sample_sender_data [PStr ''a@x.com'']
          ''Hello'' []) = Inl KeyError
   \<and> filter is_send (snd (basic_send_to_all sample_env ''sms'' sample_sender_data
          [PStr ''a@x.com''] ''Hello'' [])) = []
   \<and> fst (templated_send_to_all sample_env ''email'' sample_sender_data
          [PStr ''a@x.com'', PStr ''b@x.com''] ''Hi {0}'' PNone (PStr ''reader'')
          number_for_bob_builder []) = Inl TypeError
   \<and> filter is_send (snd (templated_send_to_all sample_env ''email'' sample_sender_data
          [PStr ''a@x.com'', PStr ''b@x.com''] ''Hi {0}'' PNone (PStr ''reader'')
          number_for_bob_builder [])) = []"
proof -
  have plain: "fst (basic_send_to_all sample_env ''sms'' sample_sender_data [PStr ''a@x.com'']
          ''Hello'' []) = Inl KeyError"
    by (simp add: basic_send_to_all_def basic_build_resources_def platform_class_def)
  have templated: "fst (templated_send_to_all sample_env ''email'' sample_sender_data
          [PStr ''a@x.com'', PStr ''b@x.com''] ''Hi {0}'' PNone (PStr ''reader'')
          number_for_bob_builder []) = Inl TypeError"
    by (simp add: templated_send_to_all_def templated_build_resources_def
          build_contact_db_def basic_build_resources_def platform_class_def
          email_build_sender_def address_domain_def domain_server_def
          new_EmailClientUser_def index_def sample_sender_data_def
          templated_send_to_all_internal_def templated_build_messages_def
          basic_build_messages_def fill_message_def
          sample_env_def sample_cursor_def number_for_bob_builder_def py_format_def emit_def
          decimal_def is_digit_def platform_name_def Let_def)
  from fatal_errors_precede_every_send [of sample_env "''sms''" sample_sender_data
      "[PStr ''a@x.com'']" "''Hello''" "[]"]
    fatal_errors_precede_every_send [of sample_env "''email''" sample_sender_data
      "[PStr ''a@x.com'', PStr ''b@x.com'']" "''Hi {0}''" "[]" PNone
      "PStr ''reader''" number_for_bob_builder]
  show ?thesis using plain templated by auto
qed

section \<open>Recipients taken from the directory\<close>

lemma directory_resources:
  assumes "raises env history (Connect db_username) = None"
  shows "templated_build_resources env name sender_data [] t templating_data db_username
           history =
     (case basic_build_resources env name sender_data
             (map PStr (get_usernames (ContactDB (connect env db_username)) name)) t
             (history @ [Connect db_username, Logging No_Recipients, Select_Usernames name]) of
        (Inl e, calls) \<Rightarrow>
          (Inl e, [Connect db_username, Logging No_Recipients, Select_Usernames name] @ calls)
      | (Inr basic, calls) \<Rightarrow>
          (Inr \<lparr>r_platform = r_platform basic, r_sender = r_sender basic,
                r_recipients = r_recipients basic, r_content = r_content basic,
                r_templating_data = templating_data,
                r_contact_db = ContactDB (connect env db_username)\<rparr>,
           [Connect db_username, Logging No_Recipients, Select_Usernames name] @ calls))"
  using assms
  by (simp add: templated_build_resources_def build_contact_db_def
           split: prod.splits sum.splits)

lemma basic_build_resources_recipients:
  assumes "basic_build_resources env name sender_data (map PStr usernames) t h = (Inr res, calls)"
  shows "map get_id (r_recipients res) = map PStr usernames"
proof -
  from assms obtain cls sender platform recipients where
    "build_recipients platform (map PStr usernames) = Inr recipients"
    "r_recipients res = recipients"
    by (auto simp: basic_build_resources_def split: option.splits prod.splits sum.splits)
  then show ?thesis
    using build_recipients_usernames [of platform usernames] by auto
qed

text \<open>
  C7. In templated mode with an empty \<^verbatim>\<open>recipients_data\<close>, the directory's usernames of
  the platform are selected once, right after the connection and before anything else,
  and never again during the run; the recipients of the broadcast are exactly those
  usernames, in the order the directory returned them.
\<close>

theorem directory_recipients_are_listed_once:
  "length (filter is_select_usernames
      (snd (templated_send_to_all env name sender_data [] text templating_data db_username
              builder history))) \<le> 1
   \<and> (raises env history (Connect db_username) = None \<longrightarrow>
        (\<exists>later.
           snd (templated_send_to_all env name sender_data [] text templating_data db_username
                  builder history) =
             [Connect db_username, Logging No_Recipients, Select_Usernames name] @ later
           \<and> filter is_select_usernames later = []))
   \<and> (\<forall>res calls.
        templated_build_resources env name sender_data [] text templating_data db_username
          history = (Inr res, calls)
        \<longrightarrow> map get_id (r_recipients res) =
              map PStr (get_usernames (ContactDB (connect env db_username)) name)
          \<and> r_contact_db res = ContactDB (connect env db_username))"
proof -
  let ?run = "templated_send_to_all env name sender_data [] text templating_data db_username
                builder history"
  let ?head = "[Connect db_username, Logging No_Recipients, Select_Usernames name]"
  let ?us = "get_usernames (ContactDB (connect env db_username)) name"
  have listed: "\<exists>later. snd ?run = ?head @ later \<and> filter is_select_usernames later = []"
    if ok: "raises env history (Connect db_username) = None"
  proof (cases "basic_build_resources env name sender_data (map PStr ?us) text (history @ ?head)")
    case (Pair r calls)
    note quiet = basic_build_resources_quiet(2)
      [of env name sender_data "map PStr ?us" "text" "history @ ?head", unfolded Pair snd_conv]
    show ?thesis
    proof (cases r)
      case (Inl e)
      with Pair quiet show ?thesis
        by (intro exI [of _ calls])
           (simp add: templated_send_to_all_def directory_resources [OF ok])
    next
      case (Inr basic)
      let ?internal = "templated_send_to_all_internal env (r_platform basic) (r_sender basic)
          (r_recipients basic) (r_content basic) templating_data
          (ContactDB (connect env db_username)) builder (history @ ?head @ calls)"
      from templated_internal_phases [of env "r_platform basic" "r_sender basic"
          "r_recipients basic" "r_content basic" templating_data
          "ContactDB (connect env db_username)" builder "history @ ?head @ calls"]
      have "filter is_select_usernames (snd ?internal) = []" by auto
      with Pair Inr quiet show ?thesis
        by (intro exI [of _ "calls @ snd ?internal"])
           (simp add: templated_send_to_all_def directory_resources [OF ok] split: prod.splits)
    qed
  qed
  have failed: "snd ?run = [Connect db_username]"
    if "raises env history (Connect db_username) = Some e" for e
    using that
    by (simp add: templated_send_to_all_def templated_build_resources_def build_contact_db_def)
  have once: "length (filter is_select_usernames (snd ?run)) \<le> 1"
  proof (cases "raises env history (Connect db_username)")
    case None
    from listed [OF None] obtain later where
      "snd ?run = ?head @ later" "filter is_select_usernames later = []" by blast
    then show ?thesis by simp
  next
    case (Some e)
    from failed [OF Some] show ?thesis by simp
  qed
  have recipients: "map get_id (r_recipients res) = map PStr ?us
          \<and> r_contact_db res = ContactDB (connect env db_username)"
    if run: "templated_build_resources env name sender_data [] text templating_data db_username
          history = (Inr res, calls)" for res calls
  proof (cases "raises env history (Connect db_username)")
    case (Some e)
    with run show ?thesis
      by (simp add: templated_build_resources_def build_contact_db_def)
  next
    case None
    from run [unfolded directory_resources [OF None]] obtain basic calls' where
      b: "basic_build_resources env name sender_data (map PStr ?us) text (history @ ?head)
            = (Inr basic, calls')"
      and res: "r_recipients res = r_recipients basic"
        "r_contact_db res = ContactDB (connect env db_username)"
      by (auto split: prod.splits sum.splits)
    from basic_build_resources_recipients [OF b] res show ?thesis by simp
  qed
  show ?thesis using once listed recipients by blast
qed

text \<open>Scenario B with the recipients taken from the directory.\<close>

theorem directory_recipients_are_listed_once_witness:
  "raises sample_env [] (Connect (PStr ''reader'')) = None
   \<and> snd (templated_send_to_all sample_env ''email'' sample_sender_data [] ''Hi {0}'' PNone
            (PStr ''reader'') names_builder []) =
       [Connect (PStr ''reader''), Logging No_Recipients, Select_Usernames ''email'',
        SMTP [(''host'', PStr ''smtp.x.com'')], StartTLS 3,
        Login 3 (PStr ''me@x.com'') (PStr ''secret''),
        Select_Contact ''email'' (PStr ''a@x.com''),
        Select_Contact ''email'' (PStr ''b@x.com''),
        Sendmail 3 (PStr ''me@x.com'') (PStr ''a@x.com'') ''Hi Alice'',
        Logging (Sent (PStr ''a@x.com'') ''Hi Alice''),
        Sendmail 3 (PStr ''me@x.com'') (PStr ''b@x.com'') ''Hi Bob'',
        Logging (Sent (PStr ''b@x.com'') ''Hi Bob'')]
   \<and> get_usernames (ContactDB (connect sample_env (PStr ''reader''))) ''email'' =
       [''a@x.com'', ''b@x.com'']
   \<and> fst (templated_build_resources sample_env ''email'' sample_sender_data [] ''Hi {0}''
            PNone (PStr ''reader'') []) =
       Inr \<lparr>r_platform = Email [''x.com'' \<mapsto> 3],
            r_sender = EmailClientUser 3 (PStr ''me@x.com'') (PStr ''secret''),
            r_recipients = [EmailUser (PStr ''a@x.com''), EmailUser (PStr ''b@x.com'')],
            r_content = ''Hi {0}'', r_templating_data = PNone,
            r_contact_db = ContactDB sample_cursor\<rparr>"
proof -
  have ok: "raises sample_env [] (Connect (PStr ''reader'')) = None"
    by (simp add: sample_env_def)
  have us: "get_usernames (ContactDB (connect sample_env (PStr ''reader''))) ''email'' =
       [''a@x.com'', ''b@x.com'']"
    by (simp add: sample_env_def sample_cursor_def)
  have res: "templated_build_resources sample_env ''email'' sample_sender_data [] ''Hi {0}''
            PNone (PStr ''reader'') [] =
       (Inr \<lparr>r_platform = Email [''x.com'' \<mapsto> 3],
            r_sender = EmailClientUser 3 (PStr ''me@x.com'') (PStr ''secret''),
            r_recipients = [EmailUser (PStr ''a@x.com''), EmailUser (PStr ''b@x.com'')],
            r_content = ''Hi {0}'', r_templating_data = PNone,
            r_contact_db = ContactDB sample_cursor\<rparr>,
        [Connect (PStr ''reader''), Logging No_Recipients, Select_Usernames ''email'',
         SMTP [(''host'', PStr ''smtp.x.com'')], StartTLS 3,
         Login 3 (PStr ''me@x.com'') (PStr ''secret'')])"
    by (simp add: templated_build_resources_def
          build_contact_db_def basic_build_resources_def platform_class_def
          email_build_sender_def address_domain_def domain_server_def
          new_EmailClientUser_def index_def sample_sender_data_def
          sample_env_def sample_cursor_def Let_def numeral_3_eq_3)
  have run: "snd (templated_send_to_all sample_env ''email'' sample_sender_data [] ''Hi {0}''
            PNone (PStr ''reader'') names_builder []) =
       [Connect (PStr ''reader''), Logging No_Recipients, Select_Usernames ''email'',
        SMTP [(''host'', PStr ''smtp.x.com'')], StartTLS 3,
        Login 3 (PStr ''me@x.com'') (PStr ''secret''),
        Select_Contact ''email'' (PStr ''a@x.com''),
        Select_Contact ''email'' (PStr ''b@x.com''),
        Sendmail 3 (PStr ''me@x.com'') (PStr ''a@x.com'') ''Hi Alice'',
        Logging (Sent (PStr ''a@x.com'') ''Hi Alice''),
        Sendmail 3 (PStr ''me@x.com'') (PStr ''b@x.com'') ''Hi Bob'',
        Logging (Sent (PStr ''b@x.com'') ''Hi Bob'')]"
    unfolding templated_send_to_all_def res
    by (simp add: templated_send_to_all_internal_def templated_build_messages_def
          basic_build_messages_def fill_message_def send_message_def send_def
          sample_env_def sample_cursor_def names_builder_def py_format_def emit_def
          decimal_def is_digit_def platform_name_def Let_def)
  from directory_recipients_are_listed_once [of sample_env "''email''" sample_sender_data
      "''Hi {0}''" PNone "PStr ''reader''" names_builder "[]"]
  show ?thesis using ok us res run by simp
qed

end
